theory Spec2Isabelle
  imports Complex_Main
begin

section \<open>The EasyBusy MCP relay (src/server.mjs)\<close>

text \<open>
  The server relays JSON-RPC messages received on a WebSocket to six fixed calls of the
  EasyBusy HTTP API, and answers plain HTTP requests on two paths. The source file holds
  two revisions of the program, one after the other (lines 1-229 and 231-488). They
  agree on \<open>easybusyFetch\<close>, \<open>tools\<close> and \<open>handleToolCall\<close> and differ in the HTTP
  handler and in the message of the generic error envelope; both are modelled.

  What the program takes from its runtime is a parameter of the model (record \<open>env\<close>):
  \<open>JSON.parse\<close>, \<open>fetch\<close> with \<open>res.text()\<close>, the URL parser, the printing of a number that
  is not a small integer, the API key, the base URL and \<open>process.uptime()\<close>.
  \<open>JSON.stringify\<close> is modelled up to the text it prints: a message or body is the JSON
  value that is serialised.
\<close>

subsection \<open>JavaScript values\<close>

text \<open>
  The values \<open>JSON.parse\<close> produces. A number is a rational: every finite double is
  one (\<open>JSON.parse\<close> gives an infinite number only for a literal beyond the range of a
  double; those are left out). An object is the list of its own properties in insertion
  order; \<open>JSON.parse\<close> yields distinct keys. \<open>undefined\<close> is not a JSON value: a JavaScript value that may be
  \<open>undefined\<close> is a \<open>json option\<close>, \<open>None\<close> for \<open>undefined\<close>.
\<close>

datatype json =
    JNull
  | JBool bool
  | JNum rat
  | JStr string
  | JArr "json list"
  | JObj "(string \<times> json) list"

text \<open>A thrown \<open>Error\<close> (or \<open>TypeError\<close>), by its \<open>message\<close>.\<close>

datatype js_error = JsError string

fun message_of :: "js_error \<Rightarrow> string" where
  "message_of (JsError m) = m"

text \<open>
  Reading a property of a value that is neither \<open>null\<close> nor \<open>undefined\<close>. The program
  reads the names \<open>id\<close>, \<open>method\<close>, \<open>params\<close>, \<open>name\<close>, \<open>arguments\<close> and the argument
  names of the tools; none of them is a property of a string, a number, a boolean or
  an array, nor inherited from \<open>Object.prototype\<close>.
\<close>

fun get_prop :: "json \<Rightarrow> string \<Rightarrow> json option" where
  "get_prop (JObj kvs) k = map_of kvs k"
| "get_prop _ k = None"

text \<open>Truthiness, as \<open>||\<close> tests it.\<close>

fun truthy :: "json option \<Rightarrow> bool" where
  "truthy None = False"
| "truthy (Some JNull) = False"
| "truthy (Some (JBool b)) = b"
| "truthy (Some (JNum n)) = (n \<noteq> 0)"
| "truthy (Some (JStr s)) = (s \<noteq> [])"
| "truthy (Some (JArr xs)) = True"
| "truthy (Some (JObj kvs)) = True"

text \<open>\<open>v || {}\<close>\<close>

definition or_empty_object :: "json option \<Rightarrow> json" where
  "or_empty_object v =
     (case v of None \<Rightarrow> JObj [] | Some j \<Rightarrow> if truthy v then j else JObj [])"

text \<open>\<open>v ?? d\<close>\<close>

definition nullish_or :: "json option \<Rightarrow> json \<Rightarrow> json" where
  "nullish_or v d = (case v of None \<Rightarrow> d | Some j \<Rightarrow> if j = JNull then d else j)"

text \<open>
  \<open>JSON.stringify\<close> of an object literal: a property whose value is \<open>undefined\<close> is left
  out.
\<close>

fun json_of_fields :: "(string \<times> json option) list \<Rightarrow> (string \<times> json) list" where
  "json_of_fields [] = []"
| "json_of_fields ((k, None) # fs) = json_of_fields fs"
| "json_of_fields ((k, Some v) # fs) = (k, v) # json_of_fields fs"

subsection \<open>The runtime\<close>

text \<open>
  One request to the upstream API, as \<open>fetch\<close> receives it in \<open>url.toString()\<close> and its
  options: the method, the base URL, the pathname and the search parameters of the
  URL, the two headers, and the body (the JSON value serialised, \<open>None\<close> for no body).
\<close>

record upstream_call =
  call_method :: string
  call_base :: string
  call_path :: string
  call_query :: "(string \<times> string) list"
  call_headers :: "(string \<times> string) list"
  call_body :: "json option"

record upstream_response =
  res_status :: nat
  res_text :: string

text \<open>\<open>res.ok\<close>\<close>

definition res_ok :: "upstream_response \<Rightarrow> bool" where
  "res_ok res = (200 \<le> res_status res \<and> res_status res \<le> 299)"

text \<open>
  The runtime. \<open>JSON_parse\<close> is \<open>None\<close> where \<open>JSON.parse\<close> throws. \<open>fetch\<close> is \<open>Inl\<close>
  where \<open>fetch\<close> or \<open>res.text()\<close> rejects (a network failure), and the response's status
  and body text otherwise. \<open>url_pathname t\<close> and \<open>url_search t\<close> are the \<open>pathname\<close> and the
  \<open>searchParams\<close> of \<open>new URL(t, EASYBUSY_BASE_URL)\<close>; every \<open>t\<close> of this program starts
  with \<open>/v2/\<close>, so the URL keeps the origin of the base. \<open>Number_toString q\<close> is what
  \<open>String\<close> prints for the number \<open>q\<close>. \<open>process_uptime\<close> is the value of
  \<open>process.uptime()\<close>.
\<close>

record env =
  EASYBUSY_BASE_URL :: string
  EASYBUSY_API_KEY :: string
  JSON_parse :: "string \<Rightarrow> json option"
  fetch :: "upstream_call \<Rightarrow> js_error + upstream_response"
  url_pathname :: "string \<Rightarrow> string"
  url_search :: "string \<Rightarrow> (string \<times> string) list"
  Number_toString :: "rat \<Rightarrow> string"
  process_uptime :: rat

subsection \<open>Conversion to a string\<close>

text \<open>The decimal digits of a non-negative integer, and of an integer.\<close>

definition digit_char :: "nat \<Rightarrow> char" where
  "digit_char n = ''0123456789'' ! n"

fun show_nat :: "nat \<Rightarrow> string" where
  "show_nat n =
     (if n < 10 then [digit_char n] else show_nat (n div 10) @ [digit_char (n mod 10)])"

declare show_nat.simps [simp del]

definition show_int :: "int \<Rightarrow> string" where
  "show_int i = (if i < 0 then CHR ''-'' # show_nat (nat (- i)) else show_nat (nat i))"

text \<open>
  \<open>String\<close> of a number. An integer that a double holds exactly with its neighbours
  (\<open>Number.isSafeInteger\<close>: at most \<open>2^53 - 1\<close> in size) prints as its decimal digits. Any
  other number (a fraction, or a larger one, which prints rounded or with an exponent)
  prints as the runtime says.
\<close>

definition is_safe_integer :: "rat \<Rightarrow> bool" where
  "is_safe_integer q = (q = of_int \<lfloor>q\<rfloor> \<and> \<bar>q\<bar> \<le> 9007199254740991)"

definition number_str :: "env \<Rightarrow> rat \<Rightarrow> string" where
  "number_str e q = (if is_safe_integer q then show_int \<lfloor>q\<rfloor> else Number_toString e q)"

fun join_comma :: "string list \<Rightarrow> string" where
  "join_comma [] = []"
| "join_comma [s] = s"
| "join_comma (s # t # ss) = s @ '','' @ join_comma (t # ss)"

text \<open>
  \<open>String(v)\<close>, which is also what a template literal and \<open>searchParams.set\<close> apply to
  a value. An array joins its elements with commas, \<open>null\<close> elements as the empty string.
  A plain object gives \<open>[object Object]\<close> through \<open>Object.prototype.toString\<close>; when the
  object has an own property \<open>toString\<close> (which, coming from JSON, is not callable), the
  conversion throws a \<open>TypeError\<close> (with the message that V8 gives it).
\<close>

fun to_str :: "env \<Rightarrow> json \<Rightarrow> js_error + string"
  and elems_str :: "env \<Rightarrow> json list \<Rightarrow> js_error + string list" where
  "to_str e JNull = Inr ''null''"
| "to_str e (JBool b) = Inr (if b then ''true'' else ''false'')"
| "to_str e (JNum q) = Inr (number_str e q)"
| "to_str e (JStr s) = Inr s"
| "to_str e (JArr xs) =
     (case elems_str e xs of Inl err \<Rightarrow> Inl err | Inr ss \<Rightarrow> Inr (join_comma ss))"
| "to_str e (JObj kvs) =
     (if ''toString'' \<in> fst ` set kvs
      then Inl (JsError ''Cannot convert object to primitive value'')
      else Inr ''[object Object]'')"
| "elems_str e [] = Inr []"
| "elems_str e (x # xs) =
     (case (if x = JNull then Inr [] else to_str e x) of
        Inl err \<Rightarrow> Inl err
      | Inr s \<Rightarrow> (case elems_str e xs of Inl err \<Rightarrow> Inl err | Inr ss \<Rightarrow> Inr (s # ss)))"

text \<open>The same for a value that may be \<open>undefined\<close>.\<close>

fun value_str :: "env \<Rightarrow> json option \<Rightarrow> js_error + string" where
  "value_str e None = Inr ''undefined''"
| "value_str e (Some v) = to_str e v"

subsection \<open>The URL of a request\<close>

text \<open>
  \<open>new URL(t, EASYBUSY_BASE_URL)\<close> for a text \<open>t\<close> that starts with one \<open>/\<close> and holds only
  letters, digits, \<open>/\<close>, \<open>-\<close> and \<open>_\<close>: the URL parser encodes none of these characters,
  finds no dot segment, no query and no fragment, so the pathname is \<open>t\<close> itself and
  there are no search parameters. For any other text (dots, \<open>?\<close>, \<open>#\<close>, \<open>%\<close>, spaces, ...)
  the pathname and the search parameters are the runtime's.
\<close>

definition plain_char :: "char \<Rightarrow> bool" where
  "plain_char c =
     (c \<in> set ''abcdefghijklmnopqrstuvwxyzABCDEFGHIJKLMNOPQRSTUVWXYZ0123456789/-_'')"

definition plain_path :: "string \<Rightarrow> bool" where
  "plain_path t = (take 1 t = ''/'' \<and> take 2 t \<noteq> ''//'' \<and> list_all plain_char t)"

definition URL_pathname :: "env \<Rightarrow> string \<Rightarrow> string" where
  "URL_pathname e t = (if plain_path t then t else url_pathname e t)"

definition URL_searchParams :: "env \<Rightarrow> string \<Rightarrow> (string \<times> string) list" where
  "URL_searchParams e t = (if plain_path t then [] else url_search e t)"

subsection \<open>The upstream client: \<open>easybusyFetch\<close>\<close>

text \<open>
  \<open>url.searchParams.set(k, v)\<close>: the first pair named \<open>k\<close> takes the value and the other
  pairs named \<open>k\<close> go; with no such pair, the new pair is appended.
\<close>

fun set_param :: "string \<Rightarrow> string \<Rightarrow> (string \<times> string) list \<Rightarrow> (string \<times> string) list" where
  "set_param k v [] = [(k, v)]"
| "set_param k v ((k', v') # ps) =
     (if k' = k then (k, v) # filter (\<lambda>p. fst p \<noteq> k) ps
      else (k', v') # set_param k v ps)"

text \<open>
  The loop over \<open>Object.entries(query)\<close> (lines 24-28, 254-260): a value that is neither
  \<open>null\<close> nor \<open>undefined\<close> is converted to a string and set.
\<close>

fun set_query ::
  "env \<Rightarrow> (string \<times> json option) list \<Rightarrow> (string \<times> string) list \<Rightarrow>
     js_error + (string \<times> string) list" where
  "set_query e [] ps = Inr ps"
| "set_query e ((k, None) # es) ps = set_query e es ps"
| "set_query e ((k, Some v) # es) ps =
     (if v = JNull then set_query e es ps
      else (case to_str e v of
              Inl err \<Rightarrow> Inl err
            | Inr s \<Rightarrow> set_query e es (set_param k s ps)))"

text \<open>The error of line 45 (282), with \<open>url.pathname\<close>.\<close>

definition failed_message :: "env \<Rightarrow> string \<Rightarrow> string \<Rightarrow> upstream_response \<Rightarrow> string" where
  "failed_message e m path res =
     ''EasyBusy '' @ m @ '' '' @ URL_pathname e path @ '' failed ('' @
       show_nat (res_status res) @ ''): '' @ res_text res"

text \<open>Lines 39-42 (271-278): the value of the response body.\<close>

definition body_value :: "env \<Rightarrow> string \<Rightarrow> json" where
  "body_value e txt =
     (if txt \<noteq> []
      then (case JSON_parse e txt of Some j \<Rightarrow> j | None \<Rightarrow> JStr txt)
      else JNull)"

text \<open>
  \<open>easybusyFetch(path, {method, query, body})\<close>. \<open>query\<close> and \<open>body\<close> are object literals
  (their properties in order, each possibly \<open>undefined\<close>) or absent. The URL is parsed
  from \<open>path\<close> (line 22), then the query loop sets its parameters, then the request goes
  to \<open>url.toString()\<close> (line 30). The result is the list of requests issued and what the
  function returns or throws.
\<close>

definition easybusyFetch ::
  "env \<Rightarrow> string \<Rightarrow> string \<Rightarrow> (string \<times> json option) list option \<Rightarrow>
     (string \<times> json option) list option \<Rightarrow> upstream_call list \<times> (js_error + json)" where
  "easybusyFetch e path m query body =
     (case (case query of
              None \<Rightarrow> Inr (URL_searchParams e path)
            | Some q \<Rightarrow> set_query e q (URL_searchParams e path)) of
        Inl err \<Rightarrow> ([], Inl err)
      | Inr ps \<Rightarrow>
          (let call = \<lparr>call_method = m, call_base = EASYBUSY_BASE_URL e,
                        call_path = URL_pathname e path,
                        call_query = ps,
                        call_headers = [(''Content-Type'', ''application/json''),
                                        (''X-API-KEY'', EASYBUSY_API_KEY e)],
                        call_body = (case body of None \<Rightarrow> None
                                     | Some fs \<Rightarrow> Some (JObj (json_of_fields fs)))\<rparr>
           in case fetch e call of
                Inl err \<Rightarrow> ([call], Inl err)
              | Inr res \<Rightarrow>
                  (let json = body_value e (res_text res)
                   in if \<not> res_ok res
                      then ([call], Inl (JsError (failed_message e m path res)))
                      else ([call], Inr json))))"

subsection \<open>The tool registry and the dispatcher\<close>

definition no_input :: json where
  "no_input = JObj [(''type'', JStr ''object''), (''properties'', JObj [])]"

definition prop_type :: "string \<Rightarrow> string \<Rightarrow> string \<times> json" where
  "prop_type k t = (k, JObj [(''type'', JStr t)])"

definition tool :: "string \<Rightarrow> string \<Rightarrow> json \<Rightarrow> json" where
  "tool n d s = JObj [(''name'', JStr n), (''description'', JStr d), (''inputSchema'', s)]"

definition tools :: json where
  "tools = JArr
     [tool ''easybusy_company_features'' ''GET /v2/company/features'' no_input,
      tool ''easybusy_company_languages'' ''GET /v2/company/languages'' no_input,
      tool ''easybusy_bookable_services'' ''GET /v2/simple-booking/bookable-services''
        (JObj [(''type'', JStr ''object''),
               (''properties'', JObj [prop_type ''languageCode'' ''string'']),
               (''required'', JArr [JStr ''languageCode''])]),
      tool ''easybusy_bookable_doctors'' ''GET /v2/simple-booking/bookable-doctors'' no_input,
      tool ''easybusy_available_slots'' ''GET /v2/simple-booking/available-slots''
        (JObj [(''type'', JStr ''object''),
               (''properties'', JObj [prop_type ''languageCode'' ''string'',
                                      prop_type ''from'' ''string'',
                                      prop_type ''to'' ''string'',
                                      prop_type ''serviceId'' ''integer'',
                                      prop_type ''doctorId'' ''integer'']),
               (''required'', JArr [JStr ''languageCode'', JStr ''from'', JStr ''to'',
                                    JStr ''serviceId'', JStr ''doctorId''])]),
      tool ''easybusy_request_slot'' ''POST /v2/simple-booking/request-slot/{slotId}''
        (JObj [(''type'', JStr ''object''),
               (''properties'', JObj [prop_type ''slotId'' ''integer'',
                                      prop_type ''serviceId'' ''integer'',
                                      prop_type ''message'' ''string'',
                                      prop_type ''patientInfo'' ''object'']),
               (''required'', JArr [JStr ''slotId'', JStr ''serviceId'',
                                    JStr ''patientInfo''])])]"

text \<open>
  \<open>handleToolCall(name, args)\<close>: \<open>name\<close> may be any value or \<open>undefined\<close>; \<open>args\<close> is
  truthy (the caller passes \<open>args || {}\<close>). A \<open>case\<close> of the \<open>switch\<close> matches by \<open>===\<close>.
\<close>

definition handleToolCall ::
  "env \<Rightarrow> json option \<Rightarrow> json \<Rightarrow> upstream_call list \<times> (js_error + json)" where
  "handleToolCall e name args =
     (if name = Some (JStr ''easybusy_company_features'')
      then easybusyFetch e ''/v2/company/features'' ''GET'' None None
      else if name = Some (JStr ''easybusy_company_languages'')
      then easybusyFetch e ''/v2/company/languages'' ''GET'' None None
      else if name = Some (JStr ''easybusy_bookable_services'')
      then easybusyFetch e ''/v2/simple-booking/bookable-services'' ''GET''
             (Some [(''languageCode'', get_prop args ''languageCode'')]) None
      else if name = Some (JStr ''easybusy_bookable_doctors'')
      then easybusyFetch e ''/v2/simple-booking/bookable-doctors'' ''GET'' None None
      else if name = Some (JStr ''easybusy_available_slots'')
      then easybusyFetch e ''/v2/simple-booking/available-slots'' ''GET''
             (Some [(''languageCode'', get_prop args ''languageCode''),
                    (''from'', get_prop args ''from''),
                    (''to'', get_prop args ''to''),
                    (''serviceId'', get_prop args ''serviceId''),
                    (''doctorId'', get_prop args ''doctorId'')]) None
      else if name = Some (JStr ''easybusy_request_slot'')
      then (case value_str e (get_prop args ''slotId'') of
              Inl err \<Rightarrow> ([], Inl err)
            | Inr s \<Rightarrow>
                easybusyFetch e (''/v2/simple-booking/request-slot/'' @ s) ''POST'' None
                  (Some [(''serviceId'', get_prop args ''serviceId''),
                         (''message'', Some (nullish_or (get_prop args ''message'') (JStr []))),
                         (''patientInfo'', get_prop args ''patientInfo'')]))
      else (case value_str e name of
              Inl err \<Rightarrow> ([], Inl err)
            | Inr s \<Rightarrow> ([], Inl (JsError (''Unknown tool: '' @ s)))))"

subsection \<open>The plain HTTP handler\<close>

record http_request =
  req_method :: string
  req_url :: string

text \<open>
  The reply that the client receives: the status and the headers that the handler
  sets, and the body (\<open>None\<close> for none).
\<close>

record http_reply =
  reply_status :: nat
  reply_headers :: "(string \<times> string) list"
  reply_body :: "json option"

text \<open>
  \<open>res.writeHead(status, headers)\<close> followed by \<open>res.end(body)\<close>. The reply to a HEAD
  request carries no body: Node drops what is given to \<open>res.end\<close>.
\<close>

definition send_reply ::
  "http_request \<Rightarrow> nat \<Rightarrow> (string \<times> string) list \<Rightarrow> json option \<Rightarrow> http_reply" where
  "send_reply req st hs body =
     \<lparr>reply_status = st, reply_headers = hs,
      reply_body = (if req_method req = ''HEAD'' then None else body)\<rparr>"

definition health_reply :: "env \<Rightarrow> http_request \<Rightarrow> http_reply" where
  "health_reply e req =
     send_reply req 200 [(''Content-Type'', ''application/json'')]
       (Some (JObj [(''status'', JStr ''ok''), (''uptime'', JNum (process_uptime e))]))"

definition ready_reply :: "http_request \<Rightarrow> http_reply" where
  "ready_reply req =
     send_reply req 200 [(''Content-Type'', ''application/json'')]
       (Some (JObj [(''status'', JStr ''ready''), (''mcp'', JBool True)]))"

definition not_found_reply :: "http_request \<Rightarrow> http_reply" where
  "not_found_reply req = send_reply req 404 [] None"

text \<open>Lines 158-172, the first revision: the method is not looked at.\<close>

definition http_handler :: "env \<Rightarrow> http_request \<Rightarrow> http_reply" where
  "http_handler e req =
     (if req_url req = ''/health'' then health_reply e req
      else if req_url req = ''/mcp'' then ready_reply req
      else not_found_reply req)"

text \<open>Lines 399-416, the second revision: \<open>/mcp\<close> answers GET only.\<close>

definition http_handler2 :: "env \<Rightarrow> http_request \<Rightarrow> http_reply" where
  "http_handler2 e req =
     (if req_url req = ''/health'' then health_reply e req
      else if req_url req = ''/mcp'' \<and> req_method req = ''GET'' then ready_reply req
      else not_found_reply req)"

subsection \<open>The WebSocket message handler\<close>

text \<open>
  What handling one inbound message does: the messages sent on the socket in order (each
  the value given to \<open>JSON.stringify\<close>), the upstream requests issued in order, and
  whether the handler's promise rejected (an exception that no \<open>catch\<close> handles).
\<close>

record outcome =
  sent :: "json list"
  upstream :: "upstream_call list"
  rejected :: bool

definition error_envelope :: "json option \<Rightarrow> rat \<Rightarrow> string \<Rightarrow> json" where
  "error_envelope rid code m =
     JObj (json_of_fields
       [(''jsonrpc'', Some (JStr ''2.0'')), (''id'', rid),
        (''error'', Some (JObj [(''code'', JNum code), (''message'', JStr m)]))])"

definition result_envelope :: "json option \<Rightarrow> json \<Rightarrow> json" where
  "result_envelope rid r =
     JObj (json_of_fields
       [(''jsonrpc'', Some (JStr ''2.0'')), (''id'', rid), (''result'', Some r)])"

text \<open>
  The handler of lines 180-224 (422-483). The two revisions differ only in the message
  of the envelope sent by the \<open>catch\<close> of line 217 (471), given here as \<open>catch_message\<close>.
  Destructuring \<open>null\<close> at line 192 (437) throws a \<open>TypeError\<close> outside both \<open>try\<close>
  blocks.
\<close>

definition on_message_with :: "(js_error \<Rightarrow> string) \<Rightarrow> env \<Rightarrow> string \<Rightarrow> outcome" where
  "on_message_with catch_message e raw =
     (case JSON_parse e raw of
        None \<Rightarrow>
          \<lparr>sent = [error_envelope (Some JNull) (- 32700) ''Invalid JSON''],
           upstream = [], rejected = False\<rparr>
      | Some msg \<Rightarrow>
          if msg = JNull then \<lparr>sent = [], upstream = [], rejected = True\<rparr>
          else
            (let rid = get_prop msg ''id'';
                 method = get_prop msg ''method'';
                 params = get_prop msg ''params''
             in if method = Some (JStr ''tools/list'')
                then \<lparr>sent = [result_envelope rid
                                 (JObj [(''tools'', tools), (''nextCursor'', JNull)])],
                      upstream = [], rejected = False\<rparr>
                else if method = Some (JStr ''tools/call'')
                then (let p = or_empty_object params;
                          name = get_prop p ''name'';
                          args = get_prop p ''arguments''
                      in case handleToolCall e name (or_empty_object args) of
                           (calls, Inr result) \<Rightarrow>
                             \<lparr>sent = [result_envelope rid result],
                              upstream = calls, rejected = False\<rparr>
                         | (calls, Inl err) \<Rightarrow>
                             \<lparr>sent = [error_envelope rid (- 32000) (catch_message err)],
                              upstream = calls, rejected = False\<rparr>)
                else \<lparr>sent = [error_envelope rid (- 32601) ''Unknown method''],
                      upstream = [], rejected = False\<rparr>))"

text \<open>Line 221: \<open>err.message\<close>.\<close>

definition on_message :: "env \<Rightarrow> string \<Rightarrow> outcome" where
  "on_message = on_message_with message_of"

text \<open>Line 478: \<open>err.message || 'Internal MCP error'\<close>.\<close>

definition message_or_internal :: "js_error \<Rightarrow> string" where
  "message_or_internal err =
     (if message_of err \<noteq> [] then message_of err else ''Internal MCP error'')"

definition on_message2 :: "env \<Rightarrow> string \<Rightarrow> outcome" where
  "on_message2 = on_message_with message_or_internal"

subsection \<open>The declared input shapes\<close>

text \<open>
  What the registry declares, read off \<open>tools\<close>: the names, and for a tool its input
  schema, its required arguments and the declared type of an argument. The program
  advertises them (\<open>tools/list\<close>) and never checks them.
\<close>

definition tool_names :: "string list" where
  "tool_names =
     (case tools of
        JArr ts \<Rightarrow>
          concat (map (\<lambda>t. case get_prop t ''name'' of Some (JStr n) \<Rightarrow> [n] | _ \<Rightarrow> []) ts)
      | _ \<Rightarrow> [])"

definition tool_schema :: "string \<Rightarrow> json" where
  "tool_schema n =
     (case tools of
        JArr ts \<Rightarrow>
          (case filter (\<lambda>t. get_prop t ''name'' = Some (JStr n)) ts of
             [] \<Rightarrow> JNull
           | t # _ \<Rightarrow> (case get_prop t ''inputSchema'' of None \<Rightarrow> JNull | Some s \<Rightarrow> s))
      | _ \<Rightarrow> JNull)"

definition required_args :: "string \<Rightarrow> string list" where
  "required_args n =
     (case get_prop (tool_schema n) ''required'' of
        Some (JArr ks) \<Rightarrow> concat (map (\<lambda>k. case k of JStr x \<Rightarrow> [x] | _ \<Rightarrow> []) ks)
      | _ \<Rightarrow> [])"

definition declared_type :: "string \<Rightarrow> string \<Rightarrow> json option" where
  "declared_type n k =
     (case get_prop (tool_schema n) ''properties'' of
        None \<Rightarrow> None
      | Some ps \<Rightarrow> (case get_prop ps k of None \<Rightarrow> None | Some d \<Rightarrow> get_prop d ''type''))"

text \<open>
  A value has a declared type (the registry uses \<open>string\<close>, \<open>integer\<close>, \<open>object\<close>); an
  integer is a number with no fraction.
\<close>

fun has_type :: "json option \<Rightarrow> json \<Rightarrow> bool" where
  "has_type (Some (JStr t)) (JStr s) = (t = ''string'')"
| "has_type (Some (JStr t)) (JNum q) = (t = ''integer'' \<and> q = of_int \<lfloor>q\<rfloor>)"
| "has_type (Some (JStr t)) (JObj kvs) = (t = ''object'')"
| "has_type _ _ = False"

text \<open>Every required argument of tool \<open>n\<close> is present in \<open>args\<close> with its declared type.\<close>

definition valid_args :: "string \<Rightarrow> json \<Rightarrow> bool" where
  "valid_args n args =
     list_all (\<lambda>k. case get_prop args k of
                      None \<Rightarrow> False
                    | Some v \<Rightarrow> has_type (declared_type n k) v)
       (required_args n)"

subsection \<open>The documented upstream contract\<close>

text \<open>
  The six calls as the specification lists them (section 6, "Upstream HTTP contract"):
  method, path and query of the call that a tool stands for. \<open>arg_str e args k\<close> is the
  text of argument \<open>k\<close>, and the path and query of the request-slot call are those of
  the URL \<open>/v2/simple-booking/request-slot/{slotId}\<close>.
\<close>

definition arg_str :: "env \<Rightarrow> json \<Rightarrow> string \<Rightarrow> string" where
  "arg_str e args k = (case value_str e (get_prop args k) of Inl err \<Rightarrow> [] | Inr s \<Rightarrow> s)"

definition documented_call ::
  "env \<Rightarrow> string \<Rightarrow> json \<Rightarrow> string \<times> string \<times> (string \<times> string) list" where
  "documented_call e n args =
     (if n = ''easybusy_company_features'' then (''GET'', ''/v2/company/features'', [])
      else if n = ''easybusy_company_languages'' then (''GET'', ''/v2/company/languages'', [])
      else if n = ''easybusy_bookable_services''
      then (''GET'', ''/v2/simple-booking/bookable-services'',
            [(''languageCode'', arg_str e args ''languageCode'')])
      else if n = ''easybusy_bookable_doctors''
      then (''GET'', ''/v2/simple-booking/bookable-doctors'', [])
      else if n = ''easybusy_available_slots''
      then (''GET'', ''/v2/simple-booking/available-slots'',
            [(''languageCode'', arg_str e args ''languageCode''),
             (''from'', arg_str e args ''from''),
             (''to'', arg_str e args ''to''),
             (''serviceId'', arg_str e args ''serviceId''),
             (''doctorId'', arg_str e args ''doctorId'')])
      else if n = ''easybusy_request_slot''
      then (''POST'',
            URL_pathname e (''/v2/simple-booking/request-slot/'' @ arg_str e args ''slotId''),
            URL_searchParams e (''/v2/simple-booking/request-slot/'' @ arg_str e args ''slotId''))
      else ([], [], []))"

definition call_line :: "upstream_call \<Rightarrow> string \<times> string \<times> (string \<times> string) list" where
  "call_line c = (call_method c, call_path c, call_query c)"

subsection \<open>Calls with arguments missing\<close>




subsection \<open>A concrete runtime\<close>

text \<open>
  An environment to run the model in: \<open>JSON.parse\<close> on the few texts used below (and
  failing elsewhere); an upstream that answers 500 on the features path, 200 with a
  body that is not JSON on the languages path, 204 with an empty body on the doctors
  path, 201 with a JSON body on one request-slot path, and is unreachable otherwise;
  the URL parser on one text with dot segments; the printing of two numbers.
\<close>

definition msg_request_slot :: string where
  \<open>msg_request_slot =
     ''{"jsonrpc":"2.0","id":1,"method":"tools/call","params":{"name":"easybusy_request_slot","arguments":{"slotId":42,"serviceId":7,"patientInfo":{"name":"A"}}}}''\<close>

definition msg_features :: string where
  \<open>msg_features =
     ''{"jsonrpc":"2.0","id":2,"method":"tools/call","params":{"name":"easybusy_company_features"}}''\<close>

definition msg_unknown_tool :: string where
  \<open>msg_unknown_tool =
     ''{"jsonrpc":"2.0","id":3,"method":"tools/call","params":{"name":"easybusy_cancel"}}''\<close>

definition msg_unprintable_tool :: string where
  \<open>msg_unprintable_tool =
     ''{"jsonrpc":"2.0","id":5,"method":"tools/call","params":{"name":{"toString":1}}}''\<close>

definition msg_ping :: string where
  \<open>msg_ping = ''{"jsonrpc":"2.0","id":4,"method":"ping"}''\<close>

definition body_booking :: string where
  \<open>body_booking = ''{"bookingId":1}''\<close>

definition args_request_slot :: json where
  "args_request_slot =
     JObj [(''slotId'', JNum 42), (''serviceId'', JNum 7),
           (''patientInfo'', JObj [(''name'', JStr ''A'')])]"

definition args_null_message :: json where
  "args_null_message =
     JObj [(''slotId'', JNum 42), (''serviceId'', JNum 7), (''patientInfo'', JObj []),
           (''message'', JNull)]"

definition demo_parse :: "string \<Rightarrow> json option" where
  \<open>demo_parse s =
     (if s = ''null'' then Some JNull
      else if s = body_booking then Some (JObj [(''bookingId'', JNum 1)])
      else if s = msg_request_slot
      then Some (JObj [(''jsonrpc'', JStr ''2.0''), (''id'', JNum 1),
                       (''method'', JStr ''tools/call''),
                       (''params'', JObj [(''name'', JStr ''easybusy_request_slot''),
                                          (''arguments'', args_request_slot)])])
      else if s = msg_features
      then Some (JObj [(''jsonrpc'', JStr ''2.0''), (''id'', JNum 2),
                       (''method'', JStr ''tools/call''),
                       (''params'', JObj [(''name'', JStr ''easybusy_company_features'')])])
      else if s = msg_unknown_tool
      then Some (JObj [(''jsonrpc'', JStr ''2.0''), (''id'', JNum 3),
                       (''method'', JStr ''tools/call''),
                       (''params'', JObj [(''name'', JStr ''easybusy_cancel'')])])
      else if s = msg_unprintable_tool
      then Some (JObj [(''jsonrpc'', JStr ''2.0''), (''id'', JNum 5),
                       (''method'', JStr ''tools/call''),
                       (''params'', JObj [(''name'', JObj [(''toString'', JNum 1)])])])
      else if s = msg_ping
      then Some (JObj [(''jsonrpc'', JStr ''2.0''), (''id'', JNum 4),
                       (''method'', JStr ''ping'')])
      else None)\<close>

definition demo_fetch :: "upstream_call \<Rightarrow> js_error + upstream_response" where
  \<open>demo_fetch c =
     (if call_path c = ''/v2/company/features''
      then Inr \<lparr>res_status = 500, res_text = ''server error''\<rparr>
      else if call_path c = ''/v2/company/languages''
      then Inr \<lparr>res_status = 200, res_text = ''<html>''\<rparr>
      else if call_path c = ''/v2/simple-booking/bookable-doctors''
      then Inr \<lparr>res_status = 204, res_text = []\<rparr>
      else if call_path c = ''/v2/simple-booking/request-slot/42''
      then Inr \<lparr>res_status = 201, res_text = body_booking\<rparr>
      else Inl (JsError ''fetch failed''))\<close>

definition demo_pathname :: "string \<Rightarrow> string" where
  "demo_pathname t =
     (if t = ''/v2/simple-booking/request-slot/../../company/features''
      then ''/v2/company/features'' else t)"

definition demo_number :: "rat \<Rightarrow> string" where
  "demo_number q =
     (if q = 1000000000000000000000 then ''1e+21'' else if q = 3 / 2 then ''1.5'' else [])"

definition demo_env :: env where
  "demo_env =
     \<lparr>EASYBUSY_BASE_URL = ''https://api-b2b.easybusy.software'',
      EASYBUSY_API_KEY = ''secret'',
      JSON_parse = demo_parse,
      fetch = demo_fetch,
      url_pathname = demo_pathname,
      url_search = (\<lambda>t. []),
      Number_toString = demo_number,
      process_uptime = 25 / 2\<rparr>"

text \<open>Requests that the program issues in this environment.\<close>

definition call_features :: upstream_call where
  "call_features =
     \<lparr>call_method = ''GET'', call_base = ''https://api-b2b.easybusy.software'',
      call_path = ''/v2/company/features'', call_query = [],
      call_headers = [(''Content-Type'', ''application/json''), (''X-API-KEY'', ''secret'')],
      call_body = None\<rparr>"

definition call_languages :: upstream_call where
  "call_languages =
     \<lparr>call_method = ''GET'', call_base = ''https://api-b2b.easybusy.software'',
      call_path = ''/v2/company/languages'', call_query = [],
      call_headers = [(''Content-Type'', ''application/json''), (''X-API-KEY'', ''secret'')],
      call_body = None\<rparr>"

definition call_request_slot_42 :: upstream_call where
  "call_request_slot_42 =
     \<lparr>call_method = ''POST'', call_base = ''https://api-b2b.easybusy.software'',
      call_path = ''/v2/simple-booking/request-slot/42'', call_query = [],
      call_headers = [(''Content-Type'', ''application/json''), (''X-API-KEY'', ''secret'')],
      call_body = Some (JObj [(''serviceId'', JNum 7), (''message'', JStr []),
                              (''patientInfo'', JObj [(''name'', JStr ''A'')])])\<rparr>"


definition call_doctors :: upstream_call where
  "call_doctors =
     \<lparr>call_method = ''GET'', call_base = ''https://api-b2b.easybusy.software'',
      call_path = ''/v2/simple-booking/bookable-doctors'', call_query = [],
      call_headers = [(''Content-Type'', ''application/json''), (''X-API-KEY'', ''secret'')],
      call_body = None\<rparr>"



section \<open>Properties\<close>

subsection \<open>The registry\<close>

lemma tool_names_eq:
  "tool_names = [''easybusy_company_features'', ''easybusy_company_languages'',
     ''easybusy_bookable_services'', ''easybusy_bookable_doctors'',
     ''easybusy_available_slots'', ''easybusy_request_slot'']"
  by (simp add: tool_names_def tools_def tool_def)

lemma tool_names_cases:
  "n \<in> set tool_names \<longleftrightarrow>
     n = ''easybusy_company_features'' \<or> n = ''easybusy_company_languages'' \<or>
     n = ''easybusy_bookable_services'' \<or> n = ''easybusy_bookable_doctors'' \<or>
     n = ''easybusy_available_slots'' \<or> n = ''easybusy_request_slot''"
  unfolding tool_names_eq by (simp only: list.set insert_iff empty_iff simp_thms)

lemma required_args_eq:
  "required_args ''easybusy_company_features'' = []"
  "required_args ''easybusy_company_languages'' = []"
  "required_args ''easybusy_bookable_services'' = [''languageCode'']"
  "required_args ''easybusy_bookable_doctors'' = []"
  "required_args ''easybusy_available_slots'' =
     [''languageCode'', ''from'', ''to'', ''serviceId'', ''doctorId'']"
  "required_args ''easybusy_request_slot'' = [''slotId'', ''serviceId'', ''patientInfo'']"
  by (simp_all add: required_args_def tool_schema_def tools_def tool_def no_input_def)

lemma declared_type_eq:
  "declared_type ''easybusy_bookable_services'' ''languageCode'' = Some (JStr ''string'')"
  "declared_type ''easybusy_available_slots'' ''languageCode'' = Some (JStr ''string'')"
  "declared_type ''easybusy_available_slots'' ''from'' = Some (JStr ''string'')"
  "declared_type ''easybusy_available_slots'' ''to'' = Some (JStr ''string'')"
  "declared_type ''easybusy_available_slots'' ''serviceId'' = Some (JStr ''integer'')"
  "declared_type ''easybusy_available_slots'' ''doctorId'' = Some (JStr ''integer'')"
  "declared_type ''easybusy_request_slot'' ''slotId'' = Some (JStr ''integer'')"
  "declared_type ''easybusy_request_slot'' ''serviceId'' = Some (JStr ''integer'')"
  "declared_type ''easybusy_request_slot'' ''patientInfo'' = Some (JStr ''object'')"
  by (simp_all add: declared_type_def tool_schema_def tools_def tool_def prop_type_def)

lemma has_type_string: "has_type (Some (JStr ''string'')) v \<Longrightarrow> \<exists>s. v = JStr s"
  by (cases v) simp_all

lemma has_type_integer: "has_type (Some (JStr ''integer'')) v \<Longrightarrow> \<exists>q. v = JNum q"
  by (cases v) simp_all

lemma valid_args_iff:
  "valid_args n args =
     (\<forall>k \<in> set (required_args n). \<exists>v. get_prop args k = Some v \<and> has_type (declared_type n k) v)"
  by (auto simp: valid_args_def list_all_iff split: option.splits)

subsection \<open>Plain paths\<close>

lemma plain_fixed_paths:
  "plain_path ''/v2/company/features''"
  "plain_path ''/v2/company/languages''"
  "plain_path ''/v2/simple-booking/bookable-services''"
  "plain_path ''/v2/simple-booking/bookable-doctors''"
  "plain_path ''/v2/simple-booking/available-slots''"
  "plain_path ''/v2/simple-booking/request-slot/''"
  "plain_path ''/v2/simple-booking/request-slot/undefined''"
  by code_simp+

lemma plain_digit: "n < 10 \<Longrightarrow> plain_char (digit_char n)"
proof -
  assume n: "n < 10"
  have "list_all plain_char ''0123456789''" by code_simp
  with n show ?thesis by (simp add: digit_char_def list_all_length)
qed

lemma plain_show_nat: "list_all plain_char (show_nat n)"
proof (induction n rule: show_nat.induct)
  case (1 n)
  show ?case
  proof (cases "n < 10")
    case True
    then show ?thesis by (simp add: show_nat.simps [of n] plain_digit)
  next
    case False
    with 1 have "list_all plain_char (show_nat (n div 10))" by simp
    moreover have "plain_char (digit_char (n mod 10))" by (rule plain_digit) simp
    ultimately show ?thesis using False by (simp add: show_nat.simps [of n])
  qed
qed

lemma plain_show_int: "list_all plain_char (show_int i)"
  by (simp add: show_int_def plain_show_nat plain_char_def)

text \<open>A plain path followed by plain characters is a plain path.\<close>

lemma plain_path_append:
  assumes "plain_path t" and "2 \<le> length t" and "list_all plain_char s"
  shows "plain_path (t @ s)"
  using assms by (simp add: plain_path_def)

lemma plain_request_slot_path:
  "plain_path (''/v2/simple-booking/request-slot/'' @ show_int i)"
  by (rule plain_path_append) (simp_all add: plain_fixed_paths plain_show_int)

lemma URL_plain:
  assumes "plain_path t"
  shows "URL_pathname e t = t" and "URL_searchParams e t = []"
  using assms by (simp_all add: URL_pathname_def URL_searchParams_def)

subsection \<open>The upstream client\<close>

text \<open>
  When \<open>easybusyFetch\<close> issues a request, the request has the method given and the
  pathname of the URL, and the outcome is decided by the response alone.
\<close>

lemma easybusyFetch_issued:
  assumes "fst (easybusyFetch e path m q b) = [call]"
  shows "call_method call = m \<and> call_path call = URL_pathname e path \<and>
         snd (easybusyFetch e path m q b) =
           (case fetch e call of
              Inl err \<Rightarrow> Inl err
            | Inr res \<Rightarrow>
                if \<not> res_ok res then Inl (JsError (failed_message e m path res))
                else Inr (body_value e (res_text res)))"
proof (cases "case q of None \<Rightarrow> Inr (URL_searchParams e path)
                | Some es \<Rightarrow> set_query e es (URL_searchParams e path)")
  case (Inl err)
  with assms show ?thesis by (simp add: easybusyFetch_def)
next
  case (Inr ps)
  define c where "c = \<lparr>call_method = m, call_base = EASYBUSY_BASE_URL e,
                        call_path = URL_pathname e path,
                        call_query = ps,
                        call_headers = [(''Content-Type'', ''application/json''),
                                        (''X-API-KEY'', EASYBUSY_API_KEY e)],
                        call_body = (case b of None \<Rightarrow> None
                                     | Some fs \<Rightarrow> Some (JObj (json_of_fields fs)))\<rparr>"
  have unfolded: "easybusyFetch e path m q b =
      (case fetch e c of
         Inl err \<Rightarrow> ([c], Inl err)
       | Inr res \<Rightarrow>
           if \<not> res_ok res then ([c], Inl (JsError (failed_message e m path res)))
           else ([c], Inr (body_value e (res_text res))))"
    unfolding easybusyFetch_def Let_def c_def using Inr by simp
  have "fst (easybusyFetch e path m q b) = [c]"
    by (simp add: unfolded split: sum.splits)
  with assms have "call = c" by simp
  then show ?thesis
    by (simp add: unfolded c_def split: sum.splits)
qed

text \<open>The message of the error names the method and the path of the request.\<close>

lemma failed_message_call:
  assumes "fst (easybusyFetch e path m q b) = [call]"
  shows "failed_message e m path res =
           ''EasyBusy '' @ call_method call @ '' '' @ call_path call @ '' failed ('' @
             show_nat (res_status res) @ ''): '' @ res_text res"
  using easybusyFetch_issued [OF assms] by (simp add: failed_message_def)

lemma easybusyFetch_outcome:
  assumes "fst (easybusyFetch e path m q b) = [call]"
  shows "snd (easybusyFetch e path m q b) =
           (case fetch e call of
              Inl err \<Rightarrow> Inl err
            | Inr res \<Rightarrow>
                if \<not> res_ok res
                then Inl (JsError (''EasyBusy '' @ call_method call @ '' '' @ call_path call @
                       '' failed ('' @ show_nat (res_status res) @ ''): '' @ res_text res))
                else Inr (body_value e (res_text res)))"
  using easybusyFetch_issued [OF assms] failed_message_call [OF assms]
  by (auto split: sum.splits)

text \<open>Once the query has been built, exactly one request goes out.\<close>

lemma easybusyFetch_one_call:
  assumes "(case q of None \<Rightarrow> Inr (URL_searchParams e path)
            | Some es \<Rightarrow> set_query e es (URL_searchParams e path)) = Inr ps"
  shows "fst (easybusyFetch e path m q b) =
           [\<lparr>call_method = m, call_base = EASYBUSY_BASE_URL e,
             call_path = URL_pathname e path,
             call_query = ps,
             call_headers = [(''Content-Type'', ''application/json''),
                             (''X-API-KEY'', EASYBUSY_API_KEY e)],
             call_body = (case b of None \<Rightarrow> None
                          | Some fs \<Rightarrow> Some (JObj (json_of_fields fs)))\<rparr>]"
  unfolding easybusyFetch_def Let_def using assms
  by (simp split: sum.splits)

text \<open>The same for a plain path: the request goes to the path as written.\<close>

lemma easybusyFetch_plain:
  assumes "plain_path path"
      and "(case q of None \<Rightarrow> Inr [] | Some es \<Rightarrow> set_query e es []) = Inr ps"
  shows "fst (easybusyFetch e path m q b) =
           [\<lparr>call_method = m, call_base = EASYBUSY_BASE_URL e,
             call_path = path,
             call_query = ps,
             call_headers = [(''Content-Type'', ''application/json''),
                             (''X-API-KEY'', EASYBUSY_API_KEY e)],
             call_body = (case b of None \<Rightarrow> None
                          | Some fs \<Rightarrow> Some (JObj (json_of_fields fs)))\<rparr>]"
proof -
  from assms(1) have p: "URL_pathname e path = path" and s: "URL_searchParams e path = []"
    by (simp_all add: URL_pathname_def URL_searchParams_def)
  from assms(2) have "(case q of None \<Rightarrow> Inr (URL_searchParams e path)
            | Some es \<Rightarrow> set_query e es (URL_searchParams e path)) = Inr ps"
    unfolding s .
  from easybusyFetch_one_call [OF this] show ?thesis unfolding p .
qed

lemma easybusyFetch_line:
  assumes "plain_path path"
      and "(case q of None \<Rightarrow> Inr [] | Some es \<Rightarrow> set_query e es []) = Inr ps"
  shows "map call_line (fst (easybusyFetch e path m q b)) = [(m, path, ps)]"
  by (simp add: easybusyFetch_plain [OF assms] call_line_def)

lemma easybusyFetch_no_query_line:
  "map call_line (fst (easybusyFetch e path m None b)) =
     [(m, URL_pathname e path, URL_searchParams e path)]"
proof -
  have "(case None of None \<Rightarrow> Inr (URL_searchParams e path)
         | Some es \<Rightarrow> set_query e es (URL_searchParams e path)) = Inr (URL_searchParams e path)"
    by simp
  from easybusyFetch_one_call [OF this] show ?thesis by (simp add: call_line_def)
qed

text \<open>The one error of a conversion to a string.\<close>

lemma to_str_error:
  "to_str e v = Inl err \<Longrightarrow> err = JsError ''Cannot convert object to primitive value''"
  "elems_str e vs = Inl err \<Longrightarrow> err = JsError ''Cannot convert object to primitive value''"
  by (induction e v and e vs arbitrary: err and err rule: to_str_elems_str.induct)
    (auto split: sum.splits if_splits)

subsection \<open>The dispatcher\<close>

text \<open>A name outside the registry reaches the \<open>default\<close> of the \<open>switch\<close>.\<close>

lemma handleToolCall_unknown:
  assumes "name \<notin> (\<lambda>n. Some (JStr n)) ` set tool_names"
  shows "handleToolCall e name args =
           ([], Inl (case value_str e name of
                       Inl err \<Rightarrow> err
                     | Inr s \<Rightarrow> JsError (''Unknown tool: '' @ s)))"
proof -
  from assms have
    "name \<noteq> Some (JStr ''easybusy_company_features'')"
    "name \<noteq> Some (JStr ''easybusy_company_languages'')"
    "name \<noteq> Some (JStr ''easybusy_bookable_services'')"
    "name \<noteq> Some (JStr ''easybusy_bookable_doctors'')"
    "name \<noteq> Some (JStr ''easybusy_available_slots'')"
    "name \<noteq> Some (JStr ''easybusy_request_slot'')"
    unfolding tool_names_eq by (simp_all only: list.set image_insert insert_iff de_Morgan_disj
        simp_thms not_False_eq_True)
  then show ?thesis
    by (simp add: handleToolCall_def split: sum.splits)
qed

lemma value_str_error:
  "value_str e name = Inl err \<Longrightarrow> err = JsError ''Cannot convert object to primitive value''"
  by (cases name) (simp_all add: to_str_error)

lemma handleToolCall_issued:
  assumes "fst (handleToolCall e name args) = [call]"
  shows "snd (handleToolCall e name args) =
           (case fetch e call of
              Inl err \<Rightarrow> Inl err
            | Inr res \<Rightarrow>
                if \<not> res_ok res
                then Inl (JsError (''EasyBusy '' @ call_method call @ '' '' @ call_path call @
                       '' failed ('' @ show_nat (res_status res) @ ''): '' @ res_text res))
                else Inr (body_value e (res_text res)))"
  using assms unfolding handleToolCall_def
  by (simp add: easybusyFetch_outcome split: if_splits sum.splits)

subsection \<open>The message handler\<close>

lemma get_prop_Some_not_null: "get_prop msg k = Some v \<Longrightarrow> msg \<noteq> JNull"
  by (cases msg) simp_all

lemma on_message_with_invalid:
  "JSON_parse e raw = None \<Longrightarrow>
   on_message_with c e raw =
     \<lparr>sent = [error_envelope (Some JNull) (- 32700) ''Invalid JSON''],
      upstream = [], rejected = False\<rparr>"
  by (simp add: on_message_with_def)

lemma on_message_with_other:
  "JSON_parse e raw = Some msg \<Longrightarrow> msg \<noteq> JNull \<Longrightarrow>
   get_prop msg ''method'' \<noteq> Some (JStr ''tools/list'') \<Longrightarrow>
   get_prop msg ''method'' \<noteq> Some (JStr ''tools/call'') \<Longrightarrow>
   on_message_with c e raw =
     \<lparr>sent = [error_envelope (get_prop msg ''id'') (- 32601) ''Unknown method''],
      upstream = [], rejected = False\<rparr>"
  by (simp add: on_message_with_def)

lemma on_message_with_call:
  "JSON_parse e raw = Some msg \<Longrightarrow>
   get_prop msg ''method'' = Some (JStr ''tools/call'') \<Longrightarrow>
   on_message_with c e raw =
     (case handleToolCall e (get_prop (or_empty_object (get_prop msg ''params'')) ''name'')
             (or_empty_object
               (get_prop (or_empty_object (get_prop msg ''params'')) ''arguments'')) of
        (calls, Inr result) \<Rightarrow>
          \<lparr>sent = [result_envelope (get_prop msg ''id'') result],
           upstream = calls, rejected = False\<rparr>
      | (calls, Inl err) \<Rightarrow>
          \<lparr>sent = [error_envelope (get_prop msg ''id'') (- 32000) (c err)],
           upstream = calls, rejected = False\<rparr>)"
  by (frule get_prop_Some_not_null) (simp add: on_message_with_def Let_def)

lemma on_message_with_upstream:
  assumes "JSON_parse e raw = Some msg"
      and "get_prop msg ''method'' = Some (JStr ''tools/call'')"
  shows "upstream (on_message_with c e raw) =
           fst (handleToolCall e (get_prop (or_empty_object (get_prop msg ''params'')) ''name'')
             (or_empty_object
               (get_prop (or_empty_object (get_prop msg ''params'')) ''arguments'')))"
  using assms by (simp add: on_message_with_call split: prod.splits sum.splits)

lemma on_message_with_sent:
  assumes "JSON_parse e raw = Some msg"
      and "get_prop msg ''method'' = Some (JStr ''tools/call'')"
  shows "sent (on_message_with c e raw) =
           (case snd (handleToolCall e
                   (get_prop (or_empty_object (get_prop msg ''params'')) ''name'')
                   (or_empty_object
                     (get_prop (or_empty_object (get_prop msg ''params'')) ''arguments''))) of
              Inl err \<Rightarrow> [error_envelope (get_prop msg ''id'') (- 32000) (c err)]
            | Inr result \<Rightarrow> [result_envelope (get_prop msg ''id'') result])"
  using assms by (simp add: on_message_with_call split: prod.splits sum.splits)

subsection \<open>The concrete runtime\<close>

lemma demo_parse_request_slot:
  "JSON_parse demo_env msg_request_slot =
     Some (JObj [(''jsonrpc'', JStr ''2.0''), (''id'', JNum 1),
                 (''method'', JStr ''tools/call''),
                 (''params'', JObj [(''name'', JStr ''easybusy_request_slot''),
                                    (''arguments'', args_request_slot)])])"
  by code_simp

lemma demo_parse_features:
  "JSON_parse demo_env msg_features =
     Some (JObj [(''jsonrpc'', JStr ''2.0''), (''id'', JNum 2),
                 (''method'', JStr ''tools/call''),
                 (''params'', JObj [(''name'', JStr ''easybusy_company_features'')])])"
  by code_simp

lemma demo_parse_unknown_tool:
  "JSON_parse demo_env msg_unknown_tool =
     Some (JObj [(''jsonrpc'', JStr ''2.0''), (''id'', JNum 3),
                 (''method'', JStr ''tools/call''),
                 (''params'', JObj [(''name'', JStr ''easybusy_cancel'')])])"
  by code_simp

lemma demo_parse_ping:
  "JSON_parse demo_env msg_ping =
     Some (JObj [(''jsonrpc'', JStr ''2.0''), (''id'', JNum 4), (''method'', JStr ''ping'')])"
  by code_simp

lemma demo_parse_booking:
  "JSON_parse demo_env body_booking = Some (JObj [(''bookingId'', JNum 1)])"
  by code_simp

lemma demo_fetch_features:
  "fetch demo_env call_features = Inr \<lparr>res_status = 500, res_text = ''server error''\<rparr>"
  by code_simp

lemma demo_fetch_languages:
  "fetch demo_env call_languages = Inr \<lparr>res_status = 200, res_text = ''<html>''\<rparr>"
  by code_simp

lemma demo_fetch_request_slot:
  "fetch demo_env call_request_slot_42 = Inr \<lparr>res_status = 201, res_text = body_booking\<rparr>"
  by code_simp

lemma demo_upstream_request_slot:
  "upstream (on_message demo_env msg_request_slot) = [call_request_slot_42]"
  by code_simp

lemma demo_upstream_features:
  "upstream (on_message demo_env msg_features) = [call_features]"
  by code_simp

lemma demo_valid_request_slot: "valid_args ''easybusy_request_slot'' args_request_slot"
  by code_simp

subsection \<open>The six tools and their upstream calls\<close>

text \<open>With its required arguments valid, each tool issues the call documented for it.\<close>

lemma documented_services:
  assumes "valid_args ''easybusy_bookable_services'' args"
  shows "map call_line (fst (handleToolCall e (Some (JStr ''easybusy_bookable_services'')) args))
         = [documented_call e ''easybusy_bookable_services'' args]"
proof -
  from assms obtain l where "get_prop args ''languageCode'' = Some (JStr l)"
    by (auto simp: valid_args_iff required_args_eq declared_type_eq dest: has_type_string)
  then show ?thesis
    by (simp add: handleToolCall_def documented_call_def easybusyFetch_line plain_fixed_paths
        arg_str_def)
qed

lemma valid_slots:
  assumes "valid_args ''easybusy_available_slots'' args"
  shows "\<exists>l. get_prop args ''languageCode'' = Some (JStr l)"
    and "\<exists>f. get_prop args ''from'' = Some (JStr f)"
    and "\<exists>t. get_prop args ''to'' = Some (JStr t)"
    and "\<exists>s. get_prop args ''serviceId'' = Some (JNum s)"
    and "\<exists>d. get_prop args ''doctorId'' = Some (JNum d)"
  using assms
  by (auto simp: valid_args_iff required_args_eq declared_type_eq
      dest: has_type_string has_type_integer)

lemma query_slots:
  assumes "get_prop args ''languageCode'' = Some (JStr l)"
      and "get_prop args ''from'' = Some (JStr f)"
      and "get_prop args ''to'' = Some (JStr t)"
      and "get_prop args ''serviceId'' = Some (JNum s)"
      and "get_prop args ''doctorId'' = Some (JNum d)"
  shows "set_query e [(''languageCode'', get_prop args ''languageCode''),
                    (''from'', get_prop args ''from''),
                    (''to'', get_prop args ''to''),
                    (''serviceId'', get_prop args ''serviceId''),
                    (''doctorId'', get_prop args ''doctorId'')] [] =
           Inr [(''languageCode'', l), (''from'', f), (''to'', t),
                (''serviceId'', number_str e s), (''doctorId'', number_str e d)]"
  by (simp add: assms)

lemma documented_call_slots:
  assumes "get_prop args ''languageCode'' = Some (JStr l)"
      and "get_prop args ''from'' = Some (JStr f)"
      and "get_prop args ''to'' = Some (JStr t)"
      and "get_prop args ''serviceId'' = Some (JNum s)"
      and "get_prop args ''doctorId'' = Some (JNum d)"
  shows "documented_call e ''easybusy_available_slots'' args =
           (''GET'', ''/v2/simple-booking/available-slots'',
            [(''languageCode'', l), (''from'', f), (''to'', t),
             (''serviceId'', number_str e s), (''doctorId'', number_str e d)])"
  by (simp add: documented_call_def arg_str_def assms)

lemma handleToolCall_slots:
  "handleToolCall e (Some (JStr ''easybusy_available_slots'')) args =
     easybusyFetch e ''/v2/simple-booking/available-slots'' ''GET''
       (Some [(''languageCode'', get_prop args ''languageCode''),
              (''from'', get_prop args ''from''),
              (''to'', get_prop args ''to''),
              (''serviceId'', get_prop args ''serviceId''),
              (''doctorId'', get_prop args ''doctorId'')]) None"
  by (simp add: handleToolCall_def)

lemma documented_slots:
  assumes "valid_args ''easybusy_available_slots'' args"
  shows "map call_line (fst (handleToolCall e (Some (JStr ''easybusy_available_slots'')) args))
         = [documented_call e ''easybusy_available_slots'' args]"
proof -
  from valid_slots(1) [OF assms]
  obtain l where l: "get_prop args ''languageCode'' = Some (JStr l)" ..
  from valid_slots(2) [OF assms]
  obtain f where f: "get_prop args ''from'' = Some (JStr f)" ..
  from valid_slots(3) [OF assms]
  obtain t where t: "get_prop args ''to'' = Some (JStr t)" ..
  from valid_slots(4) [OF assms]
  obtain s where s: "get_prop args ''serviceId'' = Some (JNum s)" ..
  from valid_slots(5) [OF assms]
  obtain d where d: "get_prop args ''doctorId'' = Some (JNum d)" ..
  have q: "(case Some [(''languageCode'', get_prop args ''languageCode''),
                    (''from'', get_prop args ''from''),
                    (''to'', get_prop args ''to''),
                    (''serviceId'', get_prop args ''serviceId''),
                    (''doctorId'', get_prop args ''doctorId'')] of
              None \<Rightarrow> Inr [] | Some es \<Rightarrow> set_query e es []) =
           Inr [(''languageCode'', l), (''from'', f), (''to'', t),
                (''serviceId'', number_str e s), (''doctorId'', number_str e d)]"
    using query_slots [OF l f t s d] by simp
  show ?thesis
    unfolding handleToolCall_slots documented_call_slots [OF l f t s d]
    by (rule easybusyFetch_line [OF plain_fixed_paths(5) q])
qed

lemma documented_request_slot:
  assumes "valid_args ''easybusy_request_slot'' args"
  shows "map call_line (fst (handleToolCall e (Some (JStr ''easybusy_request_slot'')) args))
         = [documented_call e ''easybusy_request_slot'' args]"
proof -
  from assms have "\<exists>q. get_prop args ''slotId'' = Some (JNum q)"
    by (auto simp: valid_args_iff required_args_eq declared_type_eq dest: has_type_integer)
  then obtain q where "get_prop args ''slotId'' = Some (JNum q)" ..
  then show ?thesis
    by (simp add: handleToolCall_def documented_call_def easybusyFetch_no_query_line arg_str_def)
qed

lemma documented_issue:
  assumes "n \<in> set tool_names" and "valid_args n args"
  shows "map call_line (fst (handleToolCall e (Some (JStr n)) args)) = [documented_call e n args]"
  using assms(1) [unfolded tool_names_cases]
proof (elim disjE)
  assume "n = ''easybusy_company_features''"
  then show ?thesis
    by (simp add: handleToolCall_def documented_call_def easybusyFetch_line plain_fixed_paths)
next
  assume "n = ''easybusy_company_languages''"
  then show ?thesis
    by (simp add: handleToolCall_def documented_call_def easybusyFetch_line plain_fixed_paths)
next
  assume "n = ''easybusy_bookable_services''"
  with assms(2) documented_services show ?thesis by simp
next
  assume "n = ''easybusy_bookable_doctors''"
  then show ?thesis
    by (simp add: handleToolCall_def documented_call_def easybusyFetch_line plain_fixed_paths)
next
  assume "n = ''easybusy_available_slots''"
  with assms(2) documented_slots show ?thesis by simp
next
  assume "n = ''easybusy_request_slot''"
  with assms(2) documented_request_slot show ?thesis by simp
qed

text \<open>
  For a \<open>slotId\<close> that is a safe integer, the documented request-slot call has the
  path written out with the decimal digits, and no query.
\<close>

lemma documented_call_safe_slot:
  assumes "get_prop args ''slotId'' = Some (JNum q)" and "is_safe_integer q"
  shows "documented_call e ''easybusy_request_slot'' args =
           (''POST'', ''/v2/simple-booking/request-slot/'' @ show_int \<lfloor>q\<rfloor>, [])"
proof -
  have a: "arg_str e args ''slotId'' = show_int \<lfloor>q\<rfloor>"
    using assms by (simp add: arg_str_def number_str_def)
  have d: "documented_call e ''easybusy_request_slot'' args =
             (''POST'',
              URL_pathname e (''/v2/simple-booking/request-slot/'' @ arg_str e args ''slotId''),
              URL_searchParams e (''/v2/simple-booking/request-slot/'' @ arg_str e args ''slotId''))"
    by (simp add: documented_call_def)
  show ?thesis
    unfolding d a by (simp only: URL_plain [OF plain_request_slot_path])
qed

text \<open>
  Claim C1, as amended. For a \<open>tools/call\<close> naming one of the six registered tools, with
  every required argument present with its declared type: exactly one upstream request
  is issued, with the documented method, path and query (in both revisions); and when
  the upstream answers that request with a 2xx status, the one reply is the result
  envelope whose \<open>result\<close> is the value of the response body (\<open>body_value\<close>: the parsed
  JSON), with the \<open>id\<close> of the request.
\<close>

theorem tools_call_relays_documented_call:
  assumes p: "JSON_parse e raw = Some msg"
      and m: "get_prop msg ''method'' = Some (JStr ''tools/call'')"
      and nm: "get_prop (or_empty_object (get_prop msg ''params'')) ''name'' = Some (JStr n)"
      and reg: "n \<in> set tool_names"
      and va: "valid_args n
                 (or_empty_object
                   (get_prop (or_empty_object (get_prop msg ''params'')) ''arguments''))"
  shows "map call_line (upstream (on_message e raw)) =
           [documented_call e n
              (or_empty_object
                (get_prop (or_empty_object (get_prop msg ''params'')) ''arguments''))]
       \<and> upstream (on_message2 e raw) = upstream (on_message e raw)
       \<and> (\<forall>call res. upstream (on_message e raw) = [call] \<and> fetch e call = Inr res \<and> res_ok res
            \<longrightarrow> sent (on_message e raw) =
                  [JObj (json_of_fields
                     [(''jsonrpc'', Some (JStr ''2.0'')), (''id'', get_prop msg ''id''),
                      (''result'', Some (body_value e (res_text res)))])]
               \<and> sent (on_message2 e raw) = sent (on_message e raw))"
proof (intro conjI allI impI)
  let ?args = "or_empty_object
                 (get_prop (or_empty_object (get_prop msg ''params'')) ''arguments'')"
  have up: "\<And>c. upstream (on_message_with c e raw) = fst (handleToolCall e (Some (JStr n)) ?args)"
    using on_message_with_upstream [OF p m] nm by simp
  show "map call_line (upstream (on_message e raw)) = [documented_call e n ?args]"
    using documented_issue [OF reg va] by (simp add: on_message_def up)
  show "upstream (on_message2 e raw) = upstream (on_message e raw)"
    by (simp add: on_message_def on_message2_def up)
  fix call res
  assume a: "upstream (on_message e raw) = [call] \<and> fetch e call = Inr res \<and> res_ok res"
  then have "fst (handleToolCall e (Some (JStr n)) ?args) = [call]"
    by (simp add: on_message_def up)
  from handleToolCall_issued [OF this] a
  have r: "snd (handleToolCall e (Some (JStr n)) ?args) = Inr (body_value e (res_text res))"
    by simp
  have s: "\<And>c. sent (on_message_with c e raw) =
             [result_envelope (get_prop msg ''id'') (body_value e (res_text res))]"
    using on_message_with_sent [OF p m] nm r by simp
  show "sent (on_message e raw) =
          [JObj (json_of_fields
             [(''jsonrpc'', Some (JStr ''2.0'')), (''id'', get_prop msg ''id''),
              (''result'', Some (body_value e (res_text res)))])]"
    by (simp add: on_message_def s result_envelope_def)
  show "sent (on_message2 e raw) = sent (on_message e raw)"
    by (simp add: on_message_def on_message2_def s)
qed

text \<open>
  The example of the specification: \<open>easybusy_request_slot\<close> with \<open>slotId\<close> 42,
  \<open>serviceId\<close> 7 and a \<open>patientInfo\<close>; the upstream answers 201 with a booking.
\<close>

theorem tools_call_relays_documented_call_witness:
  "JSON_parse demo_env msg_request_slot =
     Some (JObj [(''jsonrpc'', JStr ''2.0''), (''id'', JNum 1),
                 (''method'', JStr ''tools/call''),
                 (''params'', JObj [(''name'', JStr ''easybusy_request_slot''),
                                    (''arguments'', args_request_slot)])])
   \<and> ''easybusy_request_slot'' \<in> set tool_names
   \<and> valid_args ''easybusy_request_slot'' args_request_slot
   \<and> map call_line (upstream (on_message demo_env msg_request_slot)) =
       [(''POST'', ''/v2/simple-booking/request-slot/42'', [])]
   \<and> upstream (on_message demo_env msg_request_slot) = [call_request_slot_42]
   \<and> upstream (on_message2 demo_env msg_request_slot) = [call_request_slot_42]
   \<and> fetch demo_env call_request_slot_42 = Inr \<lparr>res_status = 201, res_text = body_booking\<rparr>
   \<and> res_ok \<lparr>res_status = 201, res_text = body_booking\<rparr>
   \<and> sent (on_message demo_env msg_request_slot) =
       [JObj [(''jsonrpc'', JStr ''2.0''), (''id'', JNum 1),
              (''result'', JObj [(''bookingId'', JNum 1)])]]
   \<and> sent (on_message2 demo_env msg_request_slot) =
       [JObj [(''jsonrpc'', JStr ''2.0''), (''id'', JNum 1),
              (''result'', JObj [(''bookingId'', JNum 1)])]]"
proof -
  let ?msg = "JObj [(''jsonrpc'', JStr ''2.0''), (''id'', JNum 1),
                 (''method'', JStr ''tools/call''),
                 (''params'', JObj [(''name'', JStr ''easybusy_request_slot''),
                                    (''arguments'', args_request_slot)])]"
  let ?res = "\<lparr>res_status = 201, res_text = body_booking\<rparr>"
  have m: "get_prop ?msg ''method'' = Some (JStr ''tools/call'')" by simp
  have nm: "get_prop (or_empty_object (get_prop ?msg ''params'')) ''name'' =
              Some (JStr ''easybusy_request_slot'')"
    by (simp add: or_empty_object_def)
  have ar: "or_empty_object (get_prop (or_empty_object (get_prop ?msg ''params'')) ''arguments'')
              = args_request_slot"
    by (simp add: or_empty_object_def args_request_slot_def)
  have reg: "''easybusy_request_slot'' \<in> set tool_names" by (simp add: tool_names_eq)
  have va: "valid_args ''easybusy_request_slot''
              (or_empty_object (get_prop (or_empty_object (get_prop ?msg ''params'')) ''arguments''))"
    unfolding ar by (rule demo_valid_request_slot)
  have ok: "res_ok ?res" by (simp add: res_ok_def)
  note t = tools_call_relays_documented_call [OF demo_parse_request_slot m nm reg va]
  from t have line: "map call_line (upstream (on_message demo_env msg_request_slot)) =
      [documented_call demo_env ''easybusy_request_slot'' args_request_slot]"
    unfolding ar by (rule conjunct1)
  have doc: "documented_call demo_env ''easybusy_request_slot'' args_request_slot =
      (''POST'', ''/v2/simple-booking/request-slot/42'', [])"
    by code_simp
  from t have up2: "upstream (on_message2 demo_env msg_request_slot) =
      upstream (on_message demo_env msg_request_slot)"
    by (rule conjunct1 [OF conjunct2])
  from t have "\<forall>call res. upstream (on_message demo_env msg_request_slot) = [call] \<and>
        fetch demo_env call = Inr res \<and> res_ok res
     \<longrightarrow> sent (on_message demo_env msg_request_slot) =
           [JObj (json_of_fields
              [(''jsonrpc'', Some (JStr ''2.0'')), (''id'', get_prop ?msg ''id''),
               (''result'', Some (body_value demo_env (res_text res)))])]
         \<and> sent (on_message2 demo_env msg_request_slot) =
           sent (on_message demo_env msg_request_slot)"
    by (rule conjunct2 [OF conjunct2])
  then have "upstream (on_message demo_env msg_request_slot) = [call_request_slot_42] \<and>
        fetch demo_env call_request_slot_42 = Inr ?res \<and> res_ok ?res
     \<longrightarrow> sent (on_message demo_env msg_request_slot) =
           [JObj (json_of_fields
              [(''jsonrpc'', Some (JStr ''2.0'')), (''id'', get_prop ?msg ''id''),
               (''result'', Some (body_value demo_env (res_text ?res)))])]
         \<and> sent (on_message2 demo_env msg_request_slot) =
           sent (on_message demo_env msg_request_slot)"
    by (elim allE)
  with demo_upstream_request_slot demo_fetch_request_slot ok
  have s: "sent (on_message demo_env msg_request_slot) =
           [JObj (json_of_fields
              [(''jsonrpc'', Some (JStr ''2.0'')), (''id'', get_prop ?msg ''id''),
               (''result'', Some (body_value demo_env (res_text ?res)))])]
         \<and> sent (on_message2 demo_env msg_request_slot) =
           sent (on_message demo_env msg_request_slot)"
    by simp
  have bv: "body_value demo_env body_booking = JObj [(''bookingId'', JNum 1)]"
    by code_simp
  from s have s1: "sent (on_message demo_env msg_request_slot) =
       [JObj [(''jsonrpc'', JStr ''2.0''), (''id'', JNum 1),
              (''result'', JObj [(''bookingId'', JNum 1)])]]"
    by (simp add: bv)
  from s s1 have s2: "sent (on_message2 demo_env msg_request_slot) =
       [JObj [(''jsonrpc'', JStr ''2.0''), (''id'', JNum 1),
              (''result'', JObj [(''bookingId'', JNum 1)])]]"
    by simp
  show ?thesis
    using demo_parse_request_slot reg demo_valid_request_slot line doc
      demo_upstream_request_slot up2 demo_fetch_request_slot ok s1 s2
    by simp
qed

text \<open>
  The claim as first stated promises the result whatever the upstream answers. Here the
  tool is registered and needs no argument, the upstream answers 500, and the reply is
  an error envelope with no \<open>result\<close>.
\<close>

theorem tools_call_upstream_500_counterexample:
  "''easybusy_company_features'' \<in> set tool_names
   \<and> upstream (on_message demo_env msg_features) = [call_features]
   \<and> fetch demo_env call_features = Inr \<lparr>res_status = 500, res_text = ''server error''\<rparr>
   \<and> sent (on_message demo_env msg_features) =
       [JObj [(''jsonrpc'', JStr ''2.0''), (''id'', JNum 2),
              (''error'', JObj [(''code'', JNum (- 32000)),
                 (''message'',
                  JStr ''EasyBusy GET /v2/company/features failed (500): server error'')])]]
   \<and> map (\<lambda>reply. get_prop reply ''result'') (sent (on_message demo_env msg_features)) = [None]"
  by code_simp

subsection \<open>Booking a slot\<close>

text \<open>
  Claim C2, as amended. For \<open>easybusy_request_slot\<close> with a \<open>slotId\<close> that is a safe
  integer (an integer of size at most \<open>2^53 - 1\<close>, which JavaScript prints digit by digit)
  and with \<open>serviceId\<close> and \<open>patientInfo\<close> present, the dispatcher issues one POST to
  \<open>/v2/simple-booking/request-slot/\<close> followed by the decimal digits of \<open>slotId\<close>, whose
  body is exactly \<open>{serviceId, message, patientInfo}\<close>; \<open>message\<close> is the argument supplied
  when it is present and not \<open>null\<close>, and the empty string when it is absent or \<open>null\<close>.
\<close>

theorem request_slot_post_body:
  assumes "get_prop args ''slotId'' = Some (JNum q)"
      and "is_safe_integer q"
      and "get_prop args ''serviceId'' = Some sv"
      and "get_prop args ''patientInfo'' = Some pinfo"
  shows "fst (handleToolCall e (Some (JStr ''easybusy_request_slot'')) args) =
           [\<lparr>call_method = ''POST'', call_base = EASYBUSY_BASE_URL e,
             call_path = ''/v2/simple-booking/request-slot/'' @ show_int \<lfloor>q\<rfloor>,
             call_query = [],
             call_headers = [(''Content-Type'', ''application/json''),
                             (''X-API-KEY'', EASYBUSY_API_KEY e)],
             call_body = Some (JObj
               [(''serviceId'', sv),
                (''message'', (case get_prop args ''message'' of
                                 None \<Rightarrow> JStr []
                               | Some v \<Rightarrow> if v = JNull then JStr [] else v)),
                (''patientInfo'', pinfo)])\<rparr>]"
proof -
  have h: "handleToolCall e (Some (JStr ''easybusy_request_slot'')) args =
             easybusyFetch e (''/v2/simple-booking/request-slot/'' @ show_int \<lfloor>q\<rfloor>) ''POST'' None
               (Some [(''serviceId'', Some sv),
                      (''message'', Some (nullish_or (get_prop args ''message'') (JStr []))),
                      (''patientInfo'', Some pinfo)])"
    using assms by (simp add: handleToolCall_def number_str_def)
  have q: "(case None of None \<Rightarrow> Inr [] | Some es \<Rightarrow> set_query e es []) = Inr []"
    by simp
  show ?thesis
    unfolding h easybusyFetch_plain [OF plain_request_slot_path q]
    by (simp add: nullish_or_def)
qed

theorem request_slot_post_body_witness:
  "get_prop args_request_slot ''slotId'' = Some (JNum 42)
   \<and> is_safe_integer 42
   \<and> show_int \<lfloor>42 :: rat\<rfloor> = ''42''
   \<and> get_prop args_request_slot ''serviceId'' = Some (JNum 7)
   \<and> get_prop args_request_slot ''patientInfo'' = Some (JObj [(''name'', JStr ''A'')])
   \<and> get_prop args_request_slot ''message'' = None
   \<and> fst (handleToolCall demo_env (Some (JStr ''easybusy_request_slot'')) args_request_slot) =
       [\<lparr>call_method = ''POST'', call_base = ''https://api-b2b.easybusy.software'',
         call_path = ''/v2/simple-booking/request-slot/42'', call_query = [],
         call_headers = [(''Content-Type'', ''application/json''), (''X-API-KEY'', ''secret'')],
         call_body = Some (JObj [(''serviceId'', JNum 7), (''message'', JStr []),
                                 (''patientInfo'', JObj [(''name'', JStr ''A'')])])\<rparr>]"
proof -
  have a: "get_prop args_request_slot ''slotId'' = Some (JNum 42)"
    by (simp add: args_request_slot_def)
  have s: "is_safe_integer 42" by (simp add: is_safe_integer_def)
  have b: "show_int \<lfloor>42 :: rat\<rfloor> = ''42''" by code_simp
  have c: "get_prop args_request_slot ''serviceId'' = Some (JNum 7)"
    by (simp add: args_request_slot_def)
  have d: "get_prop args_request_slot ''patientInfo'' = Some (JObj [(''name'', JStr ''A'')])"
    by (simp add: args_request_slot_def)
  have n: "get_prop args_request_slot ''message'' = None"
    by (simp add: args_request_slot_def)
  from request_slot_post_body [OF a s c d, of demo_env] a s b c d n
  show ?thesis by (simp add: demo_env_def)
qed

text \<open>
  The claim as first stated has \<open>message\<close> equal to the argument whenever it is present.
  A \<open>message\<close> that is present and \<open>null\<close> is sent as the empty string (\<open>??\<close>).
\<close>

theorem request_slot_null_message_counterexample:
  "get_prop args_null_message ''slotId'' = Some (JNum 42)
   \<and> get_prop args_null_message ''serviceId'' = Some (JNum 7)
   \<and> get_prop args_null_message ''patientInfo'' = Some (JObj [])
   \<and> get_prop args_null_message ''message'' = Some JNull
   \<and> map call_body
       (fst (handleToolCall demo_env (Some (JStr ''easybusy_request_slot'')) args_null_message)) =
       [Some (JObj [(''serviceId'', JNum 7), (''message'', JStr []),
                    (''patientInfo'', JObj [])])]"
  by code_simp

text \<open>
  Why the \<open>slotId\<close> is a safe integer above. A \<open>slotId\<close> is put into the text of the URL
  before the URL is parsed, so one with dot segments sends the booking to another path
  (here with the URL parser's answer for that text), and a number that is no safe
  integer is not printed digit by digit.
\<close>

lemma slot_with_dot_segments_leaves_the_path:
  "map call_line
     (fst (handleToolCall demo_env (Some (JStr ''easybusy_request_slot''))
        (JObj [(''slotId'', JStr ''../../company/features''), (''serviceId'', JNum 7),
               (''patientInfo'', JObj [])]))) =
     [(''POST'', ''/v2/company/features'', [])]"
  by code_simp

lemma large_slot_printed_by_the_runtime:
  "map call_line
     (fst (handleToolCall demo_env (Some (JStr ''easybusy_request_slot''))
        (JObj [(''slotId'', JNum 1000000000000000000000), (''serviceId'', JNum 7),
               (''patientInfo'', JObj [])]))) =
     [(''POST'', ''/v2/simple-booking/request-slot/1e+21'', [])]"
  by code_simp

subsection \<open>Unknown tools\<close>

text \<open>
  Claim C3, as amended. A \<open>tools/call\<close> whose tool name is not one of the six registered
  names (a name of any type, or none) issues no upstream request and gets one error
  envelope with code -32000 and the \<open>id\<close> of the request. Its message is \<open>Unknown tool:\<close>
  followed by the name as \<open>String\<close> prints it (a string name as it is, \<open>undefined\<close> for
  no name); for a name that does not convert to a string, it is the message of the
  \<open>TypeError\<close> of the conversion.
\<close>

theorem unknown_tool_error_envelope:
  assumes "JSON_parse e raw = Some msg"
      and "get_prop msg ''method'' = Some (JStr ''tools/call'')"
      and "get_prop (or_empty_object (get_prop msg ''params'')) ''name'' = name"
      and "name \<notin> (\<lambda>n. Some (JStr n)) ` set tool_names"
  shows "on_message e raw =
           \<lparr>sent = [JObj (json_of_fields
                      [(''jsonrpc'', Some (JStr ''2.0'')), (''id'', get_prop msg ''id''),
                       (''error'', Some (JObj
                          [(''code'', JNum (- 32000)),
                           (''message'', JStr (case value_str e name of
                                                 Inl err \<Rightarrow> message_of err
                                               | Inr s \<Rightarrow> ''Unknown tool: '' @ s))]))])],
            upstream = [], rejected = False\<rparr>
       \<and> on_message2 e raw = on_message e raw"
proof (cases "value_str e name")
  case (Inl err)
  then have "err = JsError ''Cannot convert object to primitive value''"
    by (rule value_str_error)
  with Inl assms show ?thesis
    by (simp add: on_message_def on_message2_def on_message_with_call handleToolCall_unknown
        error_envelope_def message_or_internal_def)
next
  case (Inr s)
  with assms show ?thesis
    by (simp add: on_message_def on_message2_def on_message_with_call handleToolCall_unknown
        error_envelope_def message_or_internal_def)
qed

theorem unknown_tool_error_envelope_witness:
  "JSON_parse demo_env msg_unknown_tool =
     Some (JObj [(''jsonrpc'', JStr ''2.0''), (''id'', JNum 3),
                 (''method'', JStr ''tools/call''),
                 (''params'', JObj [(''name'', JStr ''easybusy_cancel'')])])
   \<and> Some (JStr ''easybusy_cancel'') \<notin> (\<lambda>n. Some (JStr n)) ` set tool_names
   \<and> on_message demo_env msg_unknown_tool =
       \<lparr>sent = [JObj [(''jsonrpc'', JStr ''2.0''), (''id'', JNum 3),
                       (''error'', JObj [(''code'', JNum (- 32000)),
                                         (''message'', JStr ''Unknown tool: easybusy_cancel'')])]],
        upstream = [], rejected = False\<rparr>
   \<and> on_message2 demo_env msg_unknown_tool = on_message demo_env msg_unknown_tool"
proof -
  let ?msg = "JObj [(''jsonrpc'', JStr ''2.0''), (''id'', JNum 3),
                 (''method'', JStr ''tools/call''),
                 (''params'', JObj [(''name'', JStr ''easybusy_cancel'')])]"
  have m: "get_prop ?msg ''method'' = Some (JStr ''tools/call'')" by simp
  have nm: "get_prop (or_empty_object (get_prop ?msg ''params'')) ''name'' =
              Some (JStr ''easybusy_cancel'')"
    by (simp add: or_empty_object_def)
  have n: "Some (JStr ''easybusy_cancel'') \<notin> (\<lambda>n. Some (JStr n)) ` set tool_names"
    by (simp add: tool_names_eq)
  from unknown_tool_error_envelope [OF demo_parse_unknown_tool m nm n]
    demo_parse_unknown_tool n
  show ?thesis by simp
qed

text \<open>
  The claim as first stated has the message hold the tool name for every name outside
  the registry. Here the name is an object with an own property \<open>toString\<close>: the
  template literal of line 151 throws before the \<open>Error\<close> is made, and the message
  is that of the \<open>TypeError\<close>.
\<close>

theorem unprintable_tool_name_counterexample:
  "JSON_parse demo_env msg_unprintable_tool =
     Some (JObj [(''jsonrpc'', JStr ''2.0''), (''id'', JNum 5),
                 (''method'', JStr ''tools/call''),
                 (''params'', JObj [(''name'', JObj [(''toString'', JNum 1)])])])
   \<and> Some (JObj [(''toString'', JNum 1)]) \<notin> (\<lambda>n. Some (JStr n)) ` set tool_names
   \<and> on_message demo_env msg_unprintable_tool =
       \<lparr>sent = [JObj [(''jsonrpc'', JStr ''2.0''), (''id'', JNum 5),
                       (''error'', JObj [(''code'', JNum (- 32000)),
                          (''message'', JStr ''Cannot convert object to primitive value'')])]],
        upstream = [], rejected = False\<rparr>"
  by code_simp

subsection \<open>Upstream failures\<close>

text \<open>
  Claim C4. When the upstream answers a request with a status outside 200-299, the
  client throws an error whose message holds the method, the path of the request
  (\<open>url.pathname\<close>), the status and the body text as received; and a \<open>tools/call\<close> that issued the request
  replies with one error envelope, code -32000, whose message is that text unchanged,
  with the \<open>id\<close> of the request (in both revisions).
\<close>

theorem non_2xx_error_forwarded:
  assumes "fetch e call = Inr res"
      and "\<not> res_ok res"
  shows "(fst (easybusyFetch e path m q b) = [call] \<longrightarrow>
            snd (easybusyFetch e path m q b) =
              Inl (JsError (''EasyBusy '' @ m @ '' '' @ URL_pathname e path @ '' failed ('' @
                     show_nat (res_status res) @ ''): '' @ res_text res)))
       \<and> (JSON_parse e raw = Some msg \<and>
          get_prop msg ''method'' = Some (JStr ''tools/call'') \<and>
          upstream (on_message e raw) = [call] \<longrightarrow>
            sent (on_message e raw) =
              [JObj (json_of_fields
                 [(''jsonrpc'', Some (JStr ''2.0'')), (''id'', get_prop msg ''id''),
                  (''error'', Some (JObj
                     [(''code'', JNum (- 32000)),
                      (''message'', JStr (''EasyBusy '' @ call_method call @ '' '' @
                         call_path call @ '' failed ('' @
                         show_nat (res_status res) @ ''): '' @ res_text res))]))])]
            \<and> on_message2 e raw = on_message e raw)"
proof (intro conjI impI)
  assume "fst (easybusyFetch e path m q b) = [call]"
  from easybusyFetch_issued [OF this] assms
  show "snd (easybusyFetch e path m q b) =
          Inl (JsError (''EasyBusy '' @ m @ '' '' @ URL_pathname e path @ '' failed ('' @
                 show_nat (res_status res) @ ''): '' @ res_text res))"
    by (simp add: failed_message_def)
next
  assume a: "JSON_parse e raw = Some msg \<and>
          get_prop msg ''method'' = Some (JStr ''tools/call'') \<and>
          upstream (on_message e raw) = [call]"
  let ?name = "get_prop (or_empty_object (get_prop msg ''params'')) ''name''"
  let ?args = "or_empty_object
                 (get_prop (or_empty_object (get_prop msg ''params'')) ''arguments'')"
  from a have p: "JSON_parse e raw = Some msg"
    and m: "get_prop msg ''method'' = Some (JStr ''tools/call'')"
    and u: "upstream (on_message e raw) = [call]" by simp_all
  from u have "fst (handleToolCall e ?name ?args) = [call]"
    by (simp add: on_message_def on_message_with_upstream [OF p m])
  from handleToolCall_issued [OF this] assms
  have r: "snd (handleToolCall e ?name ?args) =
             Inl (JsError (''EasyBusy '' @ call_method call @ '' '' @ call_path call @
                    '' failed ('' @ show_nat (res_status res) @ ''): '' @ res_text res))"
    by simp
  show "sent (on_message e raw) =
              [JObj (json_of_fields
                 [(''jsonrpc'', Some (JStr ''2.0'')), (''id'', get_prop msg ''id''),
                  (''error'', Some (JObj
                     [(''code'', JNum (- 32000)),
                      (''message'', JStr (''EasyBusy '' @ call_method call @ '' '' @
                         call_path call @ '' failed ('' @
                         show_nat (res_status res) @ ''): '' @ res_text res))]))])]"
    by (simp add: on_message_def on_message_with_sent [OF p m] r error_envelope_def)
  have "on_message_with message_or_internal e raw = on_message_with message_of e raw"
    by (simp add: on_message_with_call [OF p m] prod.case_eq_if r message_or_internal_def
        split: prod.splits)
  then show "on_message2 e raw = on_message e raw"
    by (simp add: on_message_def on_message2_def)
qed

text \<open>The example of the specification: the upstream answers 500 with \<open>server error\<close>.\<close>

theorem non_2xx_error_forwarded_witness:
  "fetch demo_env call_features = Inr \<lparr>res_status = 500, res_text = ''server error''\<rparr>
   \<and> \<not> res_ok \<lparr>res_status = 500, res_text = ''server error''\<rparr>
   \<and> fst (easybusyFetch demo_env ''/v2/company/features'' ''GET'' None None) = [call_features]
   \<and> snd (easybusyFetch demo_env ''/v2/company/features'' ''GET'' None None) =
       Inl (JsError ''EasyBusy GET /v2/company/features failed (500): server error'')
   \<and> JSON_parse demo_env msg_features =
       Some (JObj [(''jsonrpc'', JStr ''2.0''), (''id'', JNum 2),
                   (''method'', JStr ''tools/call''),
                   (''params'', JObj [(''name'', JStr ''easybusy_company_features'')])])
   \<and> upstream (on_message demo_env msg_features) = [call_features]
   \<and> sent (on_message demo_env msg_features) =
       [JObj [(''jsonrpc'', JStr ''2.0''), (''id'', JNum 2),
              (''error'', JObj [(''code'', JNum (- 32000)),
                 (''message'',
                  JStr ''EasyBusy GET /v2/company/features failed (500): server error'')])]]
   \<and> on_message2 demo_env msg_features = on_message demo_env msg_features"
proof -
  let ?res = "\<lparr>res_status = 500, res_text = ''server error''\<rparr>"
  let ?msg = "JObj [(''jsonrpc'', JStr ''2.0''), (''id'', JNum 2),
                   (''method'', JStr ''tools/call''),
                   (''params'', JObj [(''name'', JStr ''easybusy_company_features'')])]"
  have nok: "\<not> res_ok ?res" by (simp add: res_ok_def)
  have iss: "fst (easybusyFetch demo_env ''/v2/company/features'' ''GET'' None None) =
               [call_features]"
    by code_simp
  have m: "get_prop ?msg ''method'' = Some (JStr ''tools/call'')" by simp
  have st: "show_nat 500 = ''500''" by code_simp
  have pn: "URL_pathname demo_env ''/v2/company/features'' = ''/v2/company/features''"
    by (rule URL_plain [OF plain_fixed_paths(1)])
  note t = non_2xx_error_forwarded [OF demo_fetch_features nok,
      of "''/v2/company/features''" "''GET''" None None msg_features ?msg]
  from t iss have e1: "snd (easybusyFetch demo_env ''/v2/company/features'' ''GET'' None None) =
       Inl (JsError ''EasyBusy GET /v2/company/features failed (500): server error'')"
    by (simp add: st pn)
  from t demo_parse_features m demo_upstream_features
  have e2: "sent (on_message demo_env msg_features) =
       [JObj [(''jsonrpc'', JStr ''2.0''), (''id'', JNum 2),
              (''error'', JObj [(''code'', JNum (- 32000)),
                 (''message'',
                  JStr ''EasyBusy GET /v2/company/features failed (500): server error'')])]]
       \<and> on_message2 demo_env msg_features = on_message demo_env msg_features"
    by (simp add: st pn call_features_def)
  show ?thesis
    using demo_fetch_features nok iss e1 demo_parse_features demo_upstream_features e2
    by simp
qed

subsection \<open>Messages that are not JSON\<close>

text \<open>
  Claim C5. A message that \<open>JSON.parse\<close> rejects gets exactly one reply, the parse-error
  envelope with code -32700 and id \<open>null\<close>, whatever the text is; nothing is sent
  upstream and nothing else is done with the message. Both revisions behave alike.
\<close>

theorem invalid_json_parse_error:
  assumes "JSON_parse e raw = None"
  shows "on_message e raw =
           \<lparr>sent = [JObj [(''jsonrpc'', JStr ''2.0''), (''id'', JNull),
                           (''error'', JObj [(''code'', JNum (- 32700)),
                                             (''message'', JStr ''Invalid JSON'')])]],
            upstream = [], rejected = False\<rparr>
       \<and> on_message2 e raw = on_message e raw"
  using assms
  by (simp add: on_message_def on_message2_def on_message_with_invalid error_envelope_def)

theorem invalid_json_parse_error_witness:
  "JSON_parse demo_env ''{not json'' = None
   \<and> sent (on_message demo_env ''{not json'') =
       [JObj [(''jsonrpc'', JStr ''2.0''), (''id'', JNull),
              (''error'', JObj [(''code'', JNum (- 32700)),
                                (''message'', JStr ''Invalid JSON'')])]]
   \<and> upstream (on_message demo_env ''{not json'') = []
   \<and> on_message2 demo_env ''{not json'' = on_message demo_env ''{not json''"
proof -
  have h: "JSON_parse demo_env ''{not json'' = None" by code_simp
  from invalid_json_parse_error [OF h] h show ?thesis by simp
qed

subsection \<open>Unknown methods\<close>

text \<open>
  Claim C6. A parsed message other than \<open>null\<close> whose \<open>method\<close> is neither \<open>tools/list\<close> nor
  \<open>tools/call\<close> gets the method-not-found envelope, code -32601, with the \<open>id\<close> of the
  request (the key is left out when the request has no \<open>id\<close>); nothing is sent upstream.
\<close>

theorem unknown_method_not_found:
  assumes "JSON_parse e raw = Some msg"
      and "msg \<noteq> JNull"
      and "get_prop msg ''method'' \<noteq> Some (JStr ''tools/list'')"
      and "get_prop msg ''method'' \<noteq> Some (JStr ''tools/call'')"
  shows "on_message e raw =
           \<lparr>sent = [JObj (json_of_fields
                      [(''jsonrpc'', Some (JStr ''2.0'')), (''id'', get_prop msg ''id''),
                       (''error'', Some (JObj [(''code'', JNum (- 32601)),
                                               (''message'', JStr ''Unknown method'')]))])],
            upstream = [], rejected = False\<rparr>
       \<and> on_message2 e raw = on_message e raw"
  using assms
  by (simp add: on_message_def on_message2_def on_message_with_other error_envelope_def)

theorem unknown_method_not_found_witness:
  "JSON_parse demo_env msg_ping =
     Some (JObj [(''jsonrpc'', JStr ''2.0''), (''id'', JNum 4), (''method'', JStr ''ping'')])
   \<and> on_message demo_env msg_ping =
       \<lparr>sent = [JObj [(''jsonrpc'', JStr ''2.0''), (''id'', JNum 4),
                       (''error'', JObj [(''code'', JNum (- 32601)),
                                         (''message'', JStr ''Unknown method'')])]],
        upstream = [], rejected = False\<rparr>
   \<and> on_message2 demo_env msg_ping = on_message demo_env msg_ping"
  using unknown_method_not_found [OF demo_parse_ping] demo_parse_ping by simp

subsection \<open>The plain HTTP endpoints\<close>

text \<open>
  Claim C7, as amended. A request whose URL is \<open>/health\<close> gets status 200 whatever its
  method, with the body \<open>{status: "ok", uptime}\<close>. A request whose URL is \<open>/mcp\<close> gets status
  200 with the body \<open>{status: "ready", mcp: true}\<close>: in the first revision whatever its
  method, in the second when its method is GET, any other method getting 404 with no
  body. Every other URL gets 404 with no body. The reply to a HEAD request carries the
  status and no body.
\<close>

theorem http_endpoints:
  "(req_url req = ''/health'' \<longrightarrow>
      http_handler e req =
        \<lparr>reply_status = 200, reply_headers = [(''Content-Type'', ''application/json'')],
         reply_body =
           (if req_method req = ''HEAD'' then None
            else Some (JObj [(''status'', JStr ''ok''),
                             (''uptime'', JNum (process_uptime e))]))\<rparr>
      \<and> http_handler2 e req = http_handler e req)
   \<and> (req_url req = ''/mcp'' \<longrightarrow>
      http_handler e req =
        \<lparr>reply_status = 200, reply_headers = [(''Content-Type'', ''application/json'')],
         reply_body =
           (if req_method req = ''HEAD'' then None
            else Some (JObj [(''status'', JStr ''ready''), (''mcp'', JBool True)]))\<rparr>)
   \<and> (req_url req = ''/mcp'' \<and> req_method req = ''GET'' \<longrightarrow>
      http_handler2 e req = http_handler e req)
   \<and> (req_url req = ''/mcp'' \<and> req_method req \<noteq> ''GET'' \<longrightarrow>
      http_handler2 e req = \<lparr>reply_status = 404, reply_headers = [], reply_body = None\<rparr>)
   \<and> (req_url req \<noteq> ''/health'' \<and> req_url req \<noteq> ''/mcp'' \<longrightarrow>
      http_handler e req = \<lparr>reply_status = 404, reply_headers = [], reply_body = None\<rparr>
      \<and> http_handler2 e req = http_handler e req)"
  by (simp add: http_handler_def http_handler2_def health_reply_def ready_reply_def
      not_found_reply_def send_reply_def)

theorem http_endpoints_witness:
  "http_handler demo_env \<lparr>req_method = ''POST'', req_url = ''/health''\<rparr> =
     \<lparr>reply_status = 200, reply_headers = [(''Content-Type'', ''application/json'')],
      reply_body = Some (JObj [(''status'', JStr ''ok''), (''uptime'', JNum (25 / 2))])\<rparr>
   \<and> http_handler2 demo_env \<lparr>req_method = ''POST'', req_url = ''/health''\<rparr> =
     \<lparr>reply_status = 200, reply_headers = [(''Content-Type'', ''application/json'')],
      reply_body = Some (JObj [(''status'', JStr ''ok''), (''uptime'', JNum (25 / 2))])\<rparr>
   \<and> http_handler demo_env \<lparr>req_method = ''HEAD'', req_url = ''/health''\<rparr> =
     \<lparr>reply_status = 200, reply_headers = [(''Content-Type'', ''application/json'')],
      reply_body = None\<rparr>
   \<and> http_handler demo_env \<lparr>req_method = ''GET'', req_url = ''/mcp''\<rparr> =
     \<lparr>reply_status = 200, reply_headers = [(''Content-Type'', ''application/json'')],
      reply_body = Some (JObj [(''status'', JStr ''ready''), (''mcp'', JBool True)])\<rparr>
   \<and> http_handler2 demo_env \<lparr>req_method = ''GET'', req_url = ''/mcp''\<rparr> =
     \<lparr>reply_status = 200, reply_headers = [(''Content-Type'', ''application/json'')],
      reply_body = Some (JObj [(''status'', JStr ''ready''), (''mcp'', JBool True)])\<rparr>
   \<and> http_handler2 demo_env \<lparr>req_method = ''DELETE'', req_url = ''/mcp''\<rparr> =
     \<lparr>reply_status = 404, reply_headers = [], reply_body = None\<rparr>
   \<and> http_handler demo_env \<lparr>req_method = ''GET'', req_url = ''/metrics''\<rparr> =
     \<lparr>reply_status = 404, reply_headers = [], reply_body = None\<rparr>
   \<and> http_handler2 demo_env \<lparr>req_method = ''GET'', req_url = ''/metrics''\<rparr> =
     \<lparr>reply_status = 404, reply_headers = [], reply_body = None\<rparr>"
  using http_endpoints [of "\<lparr>req_method = ''POST'', req_url = ''/health''\<rparr>" demo_env]
    http_endpoints [of "\<lparr>req_method = ''HEAD'', req_url = ''/health''\<rparr>" demo_env]
    http_endpoints [of "\<lparr>req_method = ''GET'', req_url = ''/mcp''\<rparr>" demo_env]
    http_endpoints [of "\<lparr>req_method = ''DELETE'', req_url = ''/mcp''\<rparr>" demo_env]
    http_endpoints [of "\<lparr>req_method = ''GET'', req_url = ''/metrics''\<rparr>" demo_env]
  by (simp add: demo_env_def)

text \<open>
  The claim as first stated sends every method other than GET to 404. A POST to
  \<open>/health\<close> gets 200 in both revisions, and a POST to \<open>/mcp\<close> gets 200 in the first.
\<close>

theorem http_post_health_counterexample:
  "reply_status (http_handler demo_env \<lparr>req_method = ''POST'', req_url = ''/health''\<rparr>) = 200
   \<and> reply_status (http_handler2 demo_env \<lparr>req_method = ''POST'', req_url = ''/health''\<rparr>) = 200
   \<and> reply_status (http_handler demo_env \<lparr>req_method = ''POST'', req_url = ''/mcp''\<rparr>) = 200"
  by (simp add: http_handler_def http_handler2_def health_reply_def ready_reply_def
      send_reply_def)

subsection \<open>Successful responses\<close>

text \<open>
  Claim C8, as amended. When the upstream answers a request with a status in 200-299,
  the client returns a value and throws nothing: \<open>null\<close> for an empty body, which it does
  not try to parse (line 41); for any other body the parsed value when the text is
  JSON, and the text itself, as a string, when \<open>JSON.parse\<close> rejects it.
\<close>

theorem success_never_throws:
  assumes "fst (easybusyFetch e path m q b) = [call]"
      and "fetch e call = Inr res"
      and "res_ok res"
  shows "snd (easybusyFetch e path m q b) =
           Inr (if res_text res = [] then JNull
                else case JSON_parse e (res_text res) of
                       Some j \<Rightarrow> j
                     | None \<Rightarrow> JStr (res_text res))"
  using easybusyFetch_issued [OF assms(1)] assms(2,3)
  by (simp add: body_value_def)

theorem success_never_throws_witness:
  "fst (easybusyFetch demo_env ''/v2/company/languages'' ''GET'' None None) = [call_languages]
   \<and> fetch demo_env call_languages = Inr \<lparr>res_status = 200, res_text = ''<html>''\<rparr>
   \<and> res_ok \<lparr>res_status = 200, res_text = ''<html>''\<rparr>
   \<and> JSON_parse demo_env ''<html>'' = None
   \<and> snd (easybusyFetch demo_env ''/v2/company/languages'' ''GET'' None None) =
       Inr (JStr ''<html>'')"
proof -
  have iss: "fst (easybusyFetch demo_env ''/v2/company/languages'' ''GET'' None None) =
               [call_languages]"
    by code_simp
  have ok: "res_ok \<lparr>res_status = 200, res_text = ''<html>''\<rparr>"
    by (simp add: res_ok_def)
  have np: "JSON_parse demo_env ''<html>'' = None" by code_simp
  from success_never_throws [OF iss demo_fetch_languages ok] np iss demo_fetch_languages ok
  show ?thesis by simp
qed

text \<open>
  The claim as first stated has the client try the parse on every body and return the
  raw text when it fails. The doctors path answers 204 with an empty body, a text that
  \<open>JSON.parse\<close> rejects; the value returned is \<open>null\<close>, not the empty text.
\<close>

theorem empty_body_counterexample:
  "fst (easybusyFetch demo_env ''/v2/simple-booking/bookable-doctors'' ''GET'' None None) =
     [call_doctors]
   \<and> fetch demo_env call_doctors = Inr \<lparr>res_status = 204, res_text = []\<rparr>
   \<and> res_ok \<lparr>res_status = 204, res_text = []\<rparr>
   \<and> JSON_parse demo_env [] = None
   \<and> snd (easybusyFetch demo_env ''/v2/simple-booking/bookable-doctors'' ''GET'' None None) =
       Inr JNull
   \<and> snd (easybusyFetch demo_env ''/v2/simple-booking/bookable-doctors'' ''GET'' None None) \<noteq>
       Inr (JStr [])"
  by code_simp

subsection \<open>Arguments are not validated\<close>















subsection \<open>One reply for each message\<close>

text \<open>
  A message handled to its end gets exactly one reply. The handler does not reach its
  end on the message \<open>null\<close>.
\<close>

lemma handled_message_one_reply:
  assumes "JSON_parse e raw \<noteq> Some JNull"
  shows "length (sent (on_message_with c e raw)) = 1 \<and> \<not> rejected (on_message_with c e raw)"
  using assms
  by (simp add: on_message_with_def Let_def split: option.splits prod.splits sum.splits)

text \<open>
  Claim C10 fails on the message \<open>null\<close>. The text is valid JSON, so the first \<open>try\<close> is
  passed; destructuring \<open>null\<close> (line 192, and 437) throws outside the second \<open>try\<close>, and
  the handler ends with no reply sent, in both revisions.
\<close>

theorem null_message_gets_no_reply:
  "JSON_parse demo_env ''null'' = Some JNull
   \<and> on_message demo_env ''null'' = \<lparr>sent = [], upstream = [], rejected = True\<rparr>
   \<and> on_message2 demo_env ''null'' = \<lparr>sent = [], upstream = [], rejected = True\<rparr>"
  by code_simp

end
